theory Spec2Isabelle
  imports Main "HOL-Library.Multiset"
begin

section \<open>Strava segment tracker: the daily log and the trend series\<close>

text \<open>
  A shallow embedding of \<^verbatim>\<open>strava_daily_tracker.py\<close>: \<^verbatim>\<open>get_segment_data\<close>,
  \<^verbatim>\<open>update_master_log\<close>, \<^verbatim>\<open>generate_plot\<close> and the main block.

  What is outside the program is an input of the model:
  \<^item> the file \<^verbatim>\<open>all_segments_log.csv\<close> is a value of type \<open>log_file\<close>, which records
    what \<^verbatim>\<open>os.path.exists\<close>, \<^verbatim>\<open>os.path.getsize\<close> and \<^verbatim>\<open>pandas.read_csv\<close> make of it;
  \<^item> \<^verbatim>\<open>datetime.date.today()\<close> and the success of \<^verbatim>\<open>open\<close> are fields of \<open>env\<close>;
  \<^item> the answer of the web API to a segment request is an \<open>api_response\<close>.
  Calendar dates are day ordinals (\<^verbatim>\<open>date.toordinal()\<close>), so that one day earlier
  is \<open>d - 1\<close>. Lines printed with the prefix DEBUG or without a prefix are left out;
  every line printed as a warning or an error is a \<open>diag\<close>.
\<close>

subsection \<open>Python's \<^verbatim>\<open>int\<close> on a string\<close>

text \<open>
  \<^verbatim>\<open>int(s)\<close> for an ASCII string: surrounding whitespace is dropped, one sign is
  allowed, then decimal digits, where single underscores may stand between digits.
  \<open>None\<close> is the \<^verbatim>\<open>ValueError\<close>.
\<close>

definition py_isspace :: "char \<Rightarrow> bool" where
  "py_isspace c \<longleftrightarrow> c \<in> set [CHR 0x09, CHR 0x0A, CHR 0x0B, CHR 0x0C, CHR 0x0D,
                             CHR 0x1C, CHR 0x1D, CHR 0x1E, CHR 0x1F, CHR 0x20]"

definition py_strip :: "string \<Rightarrow> string" where
  "py_strip s = rev (dropWhile py_isspace (rev (dropWhile py_isspace s)))"

definition py_digit :: "char \<Rightarrow> int option" where
  "py_digit c = map_of (zip ''0123456789'' [0, 1, 2, 3, 4, 5, 6, 7, 8, 9]) c"

fun py_digits :: "int \<Rightarrow> string \<Rightarrow> int option" where
  "py_digits acc [] = Some acc"
| "py_digits acc [c] = (case py_digit c of None \<Rightarrow> None | Some v \<Rightarrow> Some (10 * acc + v))"
| "py_digits acc (c # d # ds) =
     (if c = CHR ''_''
      then (case py_digit d of None \<Rightarrow> None | Some v \<Rightarrow> py_digits (10 * acc + v) ds)
      else (case py_digit c of None \<Rightarrow> None | Some v \<Rightarrow> py_digits (10 * acc + v) (d # ds)))"

definition py_unsigned :: "string \<Rightarrow> int option" where
  "py_unsigned s =
     (case s of [] \<Rightarrow> None
      | c # cs \<Rightarrow> (case py_digit c of None \<Rightarrow> None | Some v \<Rightarrow> py_digits v cs))"

definition py_int :: "string \<Rightarrow> int option" where
  "py_int s =
     (case py_strip s of [] \<Rightarrow> None
      | c # cs \<Rightarrow>
          if c = CHR ''-'' then map_option uminus (py_unsigned cs)
          else if c = CHR ''+'' then py_unsigned cs
          else py_unsigned (c # cs))"

subsection \<open>Data\<close>

text \<open>
  A cell of the column \<^verbatim>\<open>total_attempts_on_date\<close> as pandas hands it over: \<open>Num n\<close> is
  a number that \<^verbatim>\<open>int\<close> turns into \<open>n\<close>, \<open>NaN\<close> a missing value, \<open>Txt s\<close> text (the
  column then has dtype object) and \<open>Inf\<close> an infinite float, on which \<^verbatim>\<open>int\<close> raises
  \<^verbatim>\<open>OverflowError\<close>.
\<close>

datatype cell = Num int | NaN | Txt string | Inf

text \<open>
  One data line of the log, as a record: \<open>segment_id\<close> is read with dtype \<^verbatim>\<open>Int64\<close>,
  whose missing value is \<open>None\<close>; \<open>date\<close> is the day that \<^verbatim>\<open>parse_dates\<close> reads. A line
  whose date cell is empty or is not a date is not a record and has no place in a
  \<open>log_row\<close>; whether an id fits into 64 bits is said by \<open>in_int64\<close>.
\<close>

record log_row =
  segment_id :: "int option"
  segment_name :: string
  date :: int
  total_attempts_on_date :: cell
  daily_attempts :: int
  athlete_count :: int

text \<open>
  The states of the log file that the program tells apart.
  \<^item> \<open>Absent\<close>: \<^verbatim>\<open>os.path.exists\<close> is false.
  \<^item> \<open>ZeroLength\<close>: the file exists and \<^verbatim>\<open>os.path.getsize\<close> is 0.
  \<^item> \<open>NoColumns\<close>: the file has bytes but no header line; \<^verbatim>\<open>read_csv\<close> raises
    \<^verbatim>\<open>EmptyDataError\<close>.
  \<^item> \<open>Undecodable\<close>: \<^verbatim>\<open>read_csv\<close> raises another exception (bytes that are not UTF-8,
    a line with too many fields, a \<^verbatim>\<open>segment_id\<close> that is not an integer).
  \<^item> \<open>Csv h rows\<close>: a header line with the column names \<open>h\<close> and the data lines
    \<open>rows\<close>, each ended by a newline. A field of a row is visible to pandas when its
    column name is in \<open>h\<close>. Without the column \<^verbatim>\<open>date\<close>,
    \<^verbatim>\<open>read_csv(parse_dates=['date'])\<close> raises \<^verbatim>\<open>ValueError\<close>.
\<close>

datatype log_file = Absent | ZeroLength | NoColumns | Undecodable
  | Csv "string list" "log_row list"

definition header :: "string list" where
  "header = [''segment_id'', ''segment_name'', ''date'', ''total_attempts_on_date'',
             ''daily_attempts'', ''athlete_count'']"

fun log_rows :: "log_file \<Rightarrow> log_row list" where
  "log_rows (Csv h rows) = rows"
| "log_rows _ = []"

text \<open>
  The dictionary returned by \<^verbatim>\<open>get_segment_data\<close>. The id is the string taken from
  the configuration; a counter is \<open>None\<close> when the API sent \<^verbatim>\<open>null\<close>.
\<close>

record segment_data =
  sd_id :: string
  sd_name :: string
  sd_effort_count :: "int option"
  sd_athlete_count :: "int option"

text \<open>
  \<open>today\<close>: the day that \<^verbatim>\<open>datetime.date.today()\<close> returns, a day of the present, which
  pandas reads back as a timestamp. \<open>write_fails\<close>: \<^verbatim>\<open>open\<close> raises \<^verbatim>\<open>IOError\<close>, and
  the file stays as it is.
\<close>

record env =
  today :: int
  write_fails :: bool

datatype diag =
    ErrInvalidId string
  | WarnTotalNotInt
  | WarnTotalMissing
  | WarnKeyError
  | WarnUnparseable
  | WarnNegative int
  | ErrWrite
  | SkipNoFile
  | SkipNoData
  | SkipEmptyData
  | SkipKeyError
  | ErrPlot

subsection \<open>\<^verbatim>\<open>update_master_log\<close>\<close>

text \<open>The variables that the reading part of \<^verbatim>\<open>update_master_log\<close> sets.\<close>

record history =
  last_total_attempts :: int
  is_first_entry_for_segment :: bool
  file_is_empty :: bool
  warnings :: "diag list"

text \<open>\<^verbatim>\<open>int(x or 0)\<close> for a counter of the snapshot.\<close>

definition or_zero :: "int option \<Rightarrow> int" where
  "or_zero x = (case x of None \<Rightarrow> 0 | Some v \<Rightarrow> v)"

text \<open>
  Lines 191 and 198: the rows of the segment, \<^verbatim>\<open>sort_values(by='date')\<close>, and
  \<^verbatim>\<open>iloc[-1]\<close>. Rows with the same date keep their order in the file.
\<close>

definition segment_df :: "int \<Rightarrow> log_row list \<Rightarrow> log_row list" where
  "segment_df sid rows = sort_key date (filter (\<lambda>r. segment_id r = Some sid) rows)"

definition last_entry :: "int \<Rightarrow> log_row list \<Rightarrow> log_row option" where
  "last_entry sid rows =
     (if segment_df sid rows = [] then None else Some (last (segment_df sid rows)))"

text \<open>
  Lines 202 to 211: the last total, and the warning printed on the way. \<open>None\<close>: line 204
  raises \<^verbatim>\<open>OverflowError\<close>, which the handler of line 206 does not catch.
\<close>

definition read_total :: "string list \<Rightarrow> log_row \<Rightarrow> (int \<times> diag list) option" where
  "read_total h r =
     (if ''total_attempts_on_date'' \<in> set h \<and> total_attempts_on_date r \<noteq> NaN
      then (case total_attempts_on_date r of
              Num n \<Rightarrow> Some (n, [])
            | Txt s \<Rightarrow> (case py_int s of Some n \<Rightarrow> Some (n, [])
                         | None \<Rightarrow> Some (0, [WarnTotalNotInt]))
            | NaN \<Rightarrow> Some (0, [WarnTotalMissing])
            | Inf \<Rightarrow> None)
      else Some (0, [WarnTotalMissing]))"

text \<open>Lines 175 to 245.\<close>

definition read_history :: "int \<Rightarrow> log_file \<Rightarrow> history" where
  "read_history sid f =
     (case f of
        Absent \<Rightarrow> \<lparr>last_total_attempts = 0, is_first_entry_for_segment = True,
                   file_is_empty = True, warnings = []\<rparr>
      | ZeroLength \<Rightarrow> \<lparr>last_total_attempts = 0, is_first_entry_for_segment = True,
                       file_is_empty = True, warnings = []\<rparr>
      | NoColumns \<Rightarrow> \<lparr>last_total_attempts = 0, is_first_entry_for_segment = True,
                      file_is_empty = True, warnings = []\<rparr>
      | Undecodable \<Rightarrow> \<lparr>last_total_attempts = 0, is_first_entry_for_segment = True,
                        file_is_empty = True, warnings = [WarnUnparseable]\<rparr>
      | Csv h rows \<Rightarrow>
          if ''date'' \<notin> set h
          then \<lparr>last_total_attempts = 0, is_first_entry_for_segment = True,
                file_is_empty = True, warnings = [WarnUnparseable]\<rparr>
          else if rows = []
          then \<lparr>last_total_attempts = 0, is_first_entry_for_segment = True,
                file_is_empty = True, warnings = []\<rparr>
          else if ''segment_id'' \<notin> set h
          then \<lparr>last_total_attempts = 0, is_first_entry_for_segment = True,
                file_is_empty = False, warnings = [WarnKeyError]\<rparr>
          else (case last_entry sid rows of
                  None \<Rightarrow> \<lparr>last_total_attempts = 0, is_first_entry_for_segment = True,
                            file_is_empty = False, warnings = []\<rparr>
                | Some e \<Rightarrow>
                    (case read_total h e of
                       None \<Rightarrow> \<lparr>last_total_attempts = 0, is_first_entry_for_segment = True,
                                 file_is_empty = True, warnings = [WarnUnparseable]\<rparr>
                     | Some (t, w) \<Rightarrow> \<lparr>last_total_attempts = t,
                                        is_first_entry_for_segment = False,
                                        file_is_empty = False, warnings = w\<rparr>)))"

text \<open>Lines 248 to 259.\<close>

definition daily_of :: "history \<Rightarrow> int \<Rightarrow> int \<times> diag list" where
  "daily_of hist current_total_attempts =
     (if is_first_entry_for_segment hist then (0, [])
      else (let d = current_total_attempts - last_total_attempts hist
            in if d < 0 then (0, [WarnNegative d]) else (d, [])))"

text \<open>
  Lines 279 to 299. Mode \<^verbatim>\<open>'w'\<close> leaves the header and the new line; mode \<^verbatim>\<open>'a'\<close>
  adds the line at the end. Mode \<^verbatim>\<open>'a'\<close> is chosen for a \<open>Csv\<close> file only; a line
  appended to anything else would give a file that pandas cannot read.
\<close>

definition file_exists :: "log_file \<Rightarrow> bool" where
  "file_exists f \<longleftrightarrow> f \<noteq> Absent"

fun append_row :: "log_row \<Rightarrow> log_file \<Rightarrow> log_file" where
  "append_row r (Csv h rows) = Csv h (rows @ [r])"
| "append_row r _ = Undecodable"

definition write_row :: "history \<Rightarrow> log_row \<Rightarrow> log_file \<Rightarrow> log_file" where
  "write_row hist r f =
     (if file_is_empty hist \<or> \<not> file_exists f then Csv header [r] else append_row r f)"

record outcome =
  log_after :: log_file
  new_data_row :: "log_row option"
  printed :: "diag list"

definition update_master_log :: "env \<Rightarrow> segment_data \<Rightarrow> log_file \<Rightarrow> outcome" where
  "update_master_log e sd f =
     (case py_int (sd_id sd) of
        None \<Rightarrow> \<lparr>log_after = f, new_data_row = None, printed = [ErrInvalidId (sd_id sd)]\<rparr>
      | Some segment_id_int \<Rightarrow>
          (let current_total_attempts = or_zero (sd_effort_count sd);
               current_athlete_count = or_zero (sd_athlete_count sd);
               hist = read_history segment_id_int f;
               da = daily_of hist current_total_attempts;
               r = \<lparr>segment_id = Some segment_id_int, segment_name = sd_name sd,
                    date = today e, total_attempts_on_date = Num current_total_attempts,
                    daily_attempts = fst da, athlete_count = current_athlete_count\<rparr>
           in if write_fails e
              then \<lparr>log_after = f, new_data_row = Some r,
                    printed = warnings hist @ snd da @ [ErrWrite]\<rparr>
              else \<lparr>log_after = write_row hist r f, new_data_row = Some r,
                    printed = warnings hist @ snd da\<rparr>))"

text \<open>
  Between two calls the file is read again. The line that a call has written is six
  fields wide, in the order of \<open>header\<close>. The next \<^verbatim>\<open>read_csv\<close> reads it as the record
  that was written when
  \<^item> the header fits (\<open>fits_header\<close>): it has at least six columns, and a column that
    carries one of the program's names stands at the program's place for that name;
  \<^item> the id is in the range of \<^verbatim>\<open>Int64\<close> (\<open>in_int64\<close>), where the header has the column
    \<^verbatim>\<open>segment_id\<close>.
  Otherwise the next \<^verbatim>\<open>read_csv\<close> is taken to raise, as it does on a line of six
  fields under a header of fewer columns and on an id that \<^verbatim>\<open>Int64\<close> cannot hold, and
  the file is \<open>Undecodable\<close> from then on.
\<close>

definition in_int64 :: "int \<Rightarrow> bool" where
  "in_int64 i \<longleftrightarrow> - (2 ^ 63) \<le> i \<and> i < 2 ^ 63"

definition fits_header :: "string list \<Rightarrow> bool" where
  "fits_header h \<longleftrightarrow>
     list_all2 (\<lambda>c s. c \<in> set header \<longrightarrow> c = s) (take 6 h) header \<and>
     list_all (\<lambda>c. c \<notin> set header) (drop 6 h)"

definition line_readable :: "string list \<Rightarrow> log_row \<Rightarrow> bool" where
  "line_readable h r \<longleftrightarrow>
     fits_header h \<and>
     (''segment_id'' \<in> set h \<longrightarrow> (case segment_id r of None \<Rightarrow> True | Some i \<Rightarrow> in_int64 i))"

definition after_call :: "env \<Rightarrow> segment_data \<Rightarrow> log_file \<Rightarrow> log_file" where
  "after_call e sd f =
     (let out = update_master_log e sd f
      in case new_data_row out of
           None \<Rightarrow> log_after out
         | Some r \<Rightarrow>
             if write_fails e then log_after out
             else (case log_after out of
                     Csv h rows \<Rightarrow> if line_readable h r then Csv h rows else Undecodable
                   | g \<Rightarrow> g))"

text \<open>A sequence of calls, each with its own date and its own luck with the file.\<close>

fun update_all :: "(env \<times> segment_data) list \<Rightarrow> log_file \<Rightarrow> log_file" where
  "update_all [] f = f"
| "update_all ((e, sd) # cs) f = update_all cs (after_call e sd f)"

subsection \<open>\<^verbatim>\<open>generate_plot\<close>\<close>

text \<open>
  The result is the series handed to the chart (\<^verbatim>\<open>df_to_plot\<close>: date and
  \<^verbatim>\<open>daily_attempts\<close>), or the line printed when no chart is made. The segment's name
  goes into the title only; making the directory, drawing and saving the figure are
  taken to succeed.
  \<^verbatim>\<open>read_csv\<close> raises \<^verbatim>\<open>EmptyDataError\<close> on a file of
  length zero too. In \<^verbatim>\<open>df_all['segment_id'] == int(segment_id)\<close> the column is looked
  up before the id is converted. As in \<open>segment_df\<close>, rows with the same date keep
  their order in the file.
\<close>

datatype plot_result = Skipped diag | Saved "(int \<times> int) list"

definition generate_plot :: "string \<Rightarrow> string \<Rightarrow> log_file \<Rightarrow> plot_result" where
  "generate_plot sid title f =
     (case f of
        Absent \<Rightarrow> Skipped SkipNoFile
      | ZeroLength \<Rightarrow> Skipped SkipEmptyData
      | NoColumns \<Rightarrow> Skipped SkipEmptyData
      | Undecodable \<Rightarrow> Skipped ErrPlot
      | Csv h rows \<Rightarrow>
          if ''date'' \<notin> set h then Skipped ErrPlot
          else if ''segment_id'' \<notin> set h then Skipped SkipKeyError
          else (case py_int sid of
                  None \<Rightarrow> Skipped ErrPlot
                | Some i \<Rightarrow>
                    (let df_segment = filter (\<lambda>r. segment_id r = Some i) rows
                     in if df_segment = [] \<or> ''daily_attempts'' \<notin> set h
                        then Skipped SkipNoData
                        else (let sorted_df = sort_key date df_segment;
                                  first_real_date = Min (set (map date sorted_df));
                                  zero_point_date = first_real_date - 1
                              in Saved ((zero_point_date, 0) #
                                        map (\<lambda>r. (date r, daily_attempts r)) sorted_df)))))"

subsection \<open>\<^verbatim>\<open>get_segment_data\<close> and the main block\<close>

text \<open>
  A value of the JSON body: \<^verbatim>\<open>null\<close>, a truth value, an integer, a string, or an array
  or object (\<open>JOther True\<close> when it is empty). Numbers with a fraction are left out.
\<close>

datatype json = JNull | JBool bool | JInt int | JStr string | JOther bool

text \<open>
  What the API answers to one request: a \<^verbatim>\<open>RequestException\<close> (transport failure or
  a status that \<^verbatim>\<open>raise_for_status\<close> rejects), another exception (a body that is not
  a JSON object), or a JSON object with its fields \<^verbatim>\<open>name\<close>, \<^verbatim>\<open>effort_count\<close> and
  \<^verbatim>\<open>athlete_count\<close>, each \<open>None\<close> when the key is not there.
\<close>

datatype api_response = RequestException | OtherException
  | Json "json option" "json option" "json option"

text \<open>The dictionary that \<^verbatim>\<open>get_segment_data\<close> returns, with the values as they came.\<close>

record segment_dict =
  d_id :: string
  d_name :: json
  d_effort_count :: json
  d_athlete_count :: json

datatype fetch = Raised | Returned "segment_dict option"

definition get_segment_data :: "string \<Rightarrow> api_response \<Rightarrow> fetch" where
  "get_segment_data sid resp =
     (case resp of
        RequestException \<Rightarrow> Returned None
      | OtherException \<Rightarrow> Raised
      | Json n ec ac \<Rightarrow>
          Returned (Some \<lparr>d_id = sid,
                          d_name = (case n of None \<Rightarrow> JStr (''Unknown Segment '' @ sid)
                                    | Some x \<Rightarrow> x),
                          d_effort_count = (case ec of None \<Rightarrow> JInt 0 | Some x \<Rightarrow> x),
                          d_athlete_count = (case ac of None \<Rightarrow> JInt 0 | Some x \<Rightarrow> x)\<rparr>))"

text \<open>
  \<^verbatim>\<open>update_master_log\<close> on such a dictionary. Lines 172 and 173 are \<^verbatim>\<open>int(x or 0)\<close> on
  the value as it came, and line 269 calls \<^verbatim>\<open>replace\<close> on the name; what they raise
  is caught nowhere. Where they raise nothing the call is \<open>update_master_log\<close> on the
  snapshot \<open>snapshot_of\<close>. Line 166 comes first: with an id that is not an integer
  the call returns before any of them.
\<close>

datatype py_exception = ValueError | TypeError | AttributeError

definition int_or_zero :: "json \<Rightarrow> py_exception + int" where
  "int_or_zero x =
     (case x of
        JNull \<Rightarrow> Inr 0
      | JBool b \<Rightarrow> Inr (if b then 1 else 0)
      | JInt v \<Rightarrow> Inr v
      | JStr s \<Rightarrow> (if s = [] then Inr 0
                    else (case py_int s of None \<Rightarrow> Inl ValueError | Some v \<Rightarrow> Inr v))
      | JOther hollow \<Rightarrow> (if hollow then Inr 0 else Inl TypeError))"

definition snapshot_of :: "segment_dict \<Rightarrow> py_exception + segment_data" where
  "snapshot_of d =
     (case int_or_zero (d_effort_count d) of
        Inl x \<Rightarrow> Inl x
      | Inr ec \<Rightarrow>
          (case int_or_zero (d_athlete_count d) of
             Inl x \<Rightarrow> Inl x
           | Inr ac \<Rightarrow>
               (case d_name d of
                  JStr n \<Rightarrow> Inr \<lparr>sd_id = d_id d, sd_name = n, sd_effort_count = Some ec,
                                  sd_athlete_count = Some ac\<rparr>
                | _ \<Rightarrow> Inl AttributeError)))"

definition call_dict :: "env \<Rightarrow> segment_dict \<Rightarrow> log_file \<Rightarrow> py_exception + log_file" where
  "call_dict e d f =
     (case py_int (d_id d) of
        None \<Rightarrow> Inr f
      | Some i \<Rightarrow> (case snapshot_of d of
                     Inl x \<Rightarrow> Inl x
                   | Inr sd \<Rightarrow> Inr (after_call e sd f)))"

text \<open>
  Lines 389 to 411: the loop over the configured ids, each paired with the API's
  answer at its turn. The state is \<^verbatim>\<open>all_segment_data_current\<close>,
  \<^verbatim>\<open>processed_count\<close> and \<^verbatim>\<open>error_count\<close>.
\<close>

fun fetch_loop :: "(string \<times> api_response) list \<Rightarrow> segment_dict list \<times> nat \<times> nat
                   \<Rightarrow> segment_dict list \<times> nat \<times> nat" where
  "fetch_loop [] st = st"
| "fetch_loop ((sid, resp) # rest) (ds, p, e) =
     (case get_segment_data sid resp of
        Returned (Some d) \<Rightarrow> fetch_loop rest (ds @ [d], Suc p, e)
      | Returned None \<Rightarrow> fetch_loop rest (ds, p, Suc e)
      | Raised \<Rightarrow> fetch_loop rest (ds, p, Suc e))"

text \<open>
  Lines 419 and 420: the loop over the fetched dictionaries, with no handler around
  the call. The result is the file and, when a call raised, the exception that ends
  the run there.
\<close>

fun update_loop :: "env \<Rightarrow> segment_dict list \<Rightarrow> log_file \<Rightarrow> log_file \<times> py_exception option" where
  "update_loop e [] f = (f, None)"
| "update_loop e (d # ds) f =
     (case call_dict e d f of
        Inl x \<Rightarrow> (f, Some x)
      | Inr f' \<Rightarrow> update_loop e ds f')"

text \<open>
  \<^verbatim>\<open>load_config\<close> and \<^verbatim>\<open>refresh_access_token\<close> either call \<^verbatim>\<open>sys.exit(1)\<close> or hand
  over the ids; the run has one date and one state of the file's permissions. A run
  that ends in a traceback has exit status 1, makes no chart and prints no summary;
  otherwise \<open>summary\<close> holds the two counts of the last lines. The name of a segment
  goes into the title of its chart only, and only a string is kept there.
\<close>

datatype startup = ConfigMissing | RefreshFailed | Started "(string \<times> api_response) list"

record run =
  exit_status :: int
  log_final :: log_file
  charts :: "(string \<times> plot_result) list"
  summary :: "(nat \<times> nat) option"

definition name_text :: "json \<Rightarrow> string" where
  "name_text x = (case x of JStr n \<Rightarrow> n | _ \<Rightarrow> [])"

definition main :: "env \<Rightarrow> startup \<Rightarrow> log_file \<Rightarrow> run" where
  "main e s f =
     (case s of
        ConfigMissing \<Rightarrow> \<lparr>exit_status = 1, log_final = f, charts = [], summary = None\<rparr>
      | RefreshFailed \<Rightarrow> \<lparr>exit_status = 1, log_final = f, charts = [], summary = None\<rparr>
      | Started reqs \<Rightarrow>
          (case fetch_loop reqs ([], 0, 0) of
             (all_segment_data_current, p, ec) \<Rightarrow>
               if all_segment_data_current = []
               then \<lparr>exit_status = 0, log_final = f, charts = [], summary = Some (p, ec)\<rparr>
               else (case update_loop e all_segment_data_current f of
                       (f', Some x) \<Rightarrow>
                         \<lparr>exit_status = 1, log_final = f', charts = [], summary = None\<rparr>
                     | (f', None) \<Rightarrow>
                         \<lparr>exit_status = 0, log_final = f',
                          charts = map (\<lambda>d. (d_id d,
                                          generate_plot (d_id d) (name_text (d_name d)) f'))
                                       all_segment_data_current,
                          summary = Some (p, ec)\<rparr>)))"

subsection \<open>Classes of log files and of batches used in the statements\<close>

text \<open>
  \<open>record_readable\<close>: a data line that \<^verbatim>\<open>update_master_log\<close> reads without an
  exception, under a header that fits. \<open>append_safe\<close>: a log that is missing or has no
  data line, or that has the column \<^verbatim>\<open>date\<close> and such lines only.
\<close>

definition record_readable :: "string list \<Rightarrow> log_row \<Rightarrow> bool" where
  "record_readable h r \<longleftrightarrow> line_readable h r \<and> total_attempts_on_date r \<noteq> Inf"

fun append_safe :: "log_file \<Rightarrow> bool" where
  "append_safe Undecodable = False"
| "append_safe (Csv h rows) =
     (rows = [] \<or> (''date'' \<in> set h \<and> list_all (record_readable h) rows))"
| "append_safe _ = True"

text \<open>
  \<open>id_fits\<close>: the snapshot's id, when it is an integer, is in the range of \<^verbatim>\<open>Int64\<close>.
  \<open>appending\<close>: a call that writes a line (the id is an integer and \<^verbatim>\<open>open\<close> succeeds).
\<close>

definition id_fits :: "segment_data \<Rightarrow> bool" where
  "id_fits sd = (case py_int (sd_id sd) of None \<Rightarrow> True | Some i \<Rightarrow> in_int64 i)"

definition appending :: "env \<times> segment_data \<Rightarrow> bool" where
  "appending c \<longleftrightarrow> \<not> write_fails (fst c) \<and> py_int (sd_id (snd c)) \<noteq> None"

text \<open>
  \<open>parse_fails\<close>: reading the file in \<^verbatim>\<open>update_master_log\<close> ends in one of the three
  handlers (\<^verbatim>\<open>EmptyDataError\<close>, \<^verbatim>\<open>KeyError\<close>, \<^verbatim>\<open>Exception\<close>) because of the file's
  bytes or of its header. \<open>generic_exception\<close>: it ends in the last one for that reason.
\<close>

fun generic_exception :: "log_file \<Rightarrow> bool" where
  "generic_exception Undecodable = True"
| "generic_exception (Csv h rows) = (''date'' \<notin> set h)"
| "generic_exception _ = False"


text \<open>
  \<open>chartable\<close>: a file that \<^verbatim>\<open>update_master_log\<close> appends to has the columns that
  \<^verbatim>\<open>generate_plot\<close> asks for and data lines that are \<open>record_readable\<close>.
  \<open>kept_rows\<close>: the data lines of such a file that are still there after a successful
  write.
\<close>

fun chartable :: "log_file \<Rightarrow> bool" where
  "chartable (Csv h rows) =
     (rows \<noteq> [] \<and> ''date'' \<in> set h \<longrightarrow>
        ''segment_id'' \<in> set h \<and> ''daily_attempts'' \<in> set h \<and>
        list_all (record_readable h) rows)"
| "chartable _ = True"

fun kept_rows :: "log_file \<Rightarrow> log_row list" where
  "kept_rows (Csv h rows) = (if ''date'' \<in> set h then rows else [])"
| "kept_rows _ = []"

text \<open>
  \<open>fetched\<close>: the dictionaries of the requests that \<^verbatim>\<open>get_segment_data\<close> answers with
  one. \<open>snapshot_ok\<close>: a dictionary with the values of a segment snapshot: the id an
  integer in the range of \<^verbatim>\<open>Int64\<close>, the name a string, the counters values that
  \<^verbatim>\<open>int(x or 0)\<close> accepts.
\<close>

fun fetched :: "(string \<times> api_response) list \<Rightarrow> segment_dict list" where
  "fetched [] = []"
| "fetched ((sid, resp) # rest) =
     (case get_segment_data sid resp of
        Returned (Some d) \<Rightarrow> d # fetched rest
      | Returned None \<Rightarrow> fetched rest
      | Raised \<Rightarrow> fetched rest)"

definition snapshot_ok :: "segment_dict \<Rightarrow> bool" where
  "snapshot_ok d \<longleftrightarrow>
     (case py_int (d_id d) of None \<Rightarrow> False | Some i \<Rightarrow> in_int64 i) \<and>
     (case snapshot_of d of Inl x \<Rightarrow> False | Inr sd \<Rightarrow> True)"

section \<open>Properties\<close>

subsection \<open>The baseline record\<close>

lemma sorted_le_last: "sorted xs \<Longrightarrow> x \<in> set xs \<Longrightarrow> x \<le> last (xs :: int list)"
  by (induction xs) auto

lemma set_segment_df: "set (segment_df i rows) = {r \<in> set rows. segment_id r = Some i}"
  by (auto simp: segment_df_def)

lemma segment_df_empty_iff: "segment_df i rows = [] \<longleftrightarrow> (\<forall>r\<in>set rows. segment_id r \<noteq> Some i)"
proof -
  have "segment_df i rows = [] \<longleftrightarrow> set (segment_df i rows) = {}" by simp
  then show ?thesis unfolding set_segment_df by auto
qed

lemma sorted_segment_df: "sorted (map date (segment_df i rows))"
  by (simp add: segment_df_def)

lemma last_entry_None_iff: "last_entry i rows = None \<longleftrightarrow> (\<forall>r\<in>set rows. segment_id r \<noteq> Some i)"
  by (simp add: last_entry_def segment_df_empty_iff)

lemma last_entry_maximal:
  assumes "last_entry i rows = Some b"
  shows "b \<in> set rows \<and> segment_id b = Some i \<and> (\<forall>r\<in>set rows. segment_id r = Some i \<longrightarrow> date r \<le> date b)"
proof -
  let ?xs = "segment_df i rows"
  from assms have ne: "?xs \<noteq> []" and b: "b = last ?xs"
    by (auto simp: last_entry_def split: if_splits)
  from ne b have "b \<in> set ?xs" by simp
  then have m: "b \<in> set rows \<and> segment_id b = Some i" by (simp add: set_segment_df)
  have "date r \<le> date b" if "r \<in> set rows" "segment_id r = Some i" for r
  proof -
    from that have "date r \<in> set (map date ?xs)" by (simp add: set_segment_df)
    then have "date r \<le> last (map date ?xs)" using sorted_segment_df by (simp add: sorted_le_last)
    then show ?thesis using ne b by (simp add: last_map)
  qed
  with m show ?thesis by blast
qed

lemma last_entry_unique_max:
  assumes "b \<in> set rows" "segment_id b = Some i"
      and "\<forall>r\<in>set rows. segment_id r = Some i \<and> r \<noteq> b \<longrightarrow> date r < date b"
      and "mset rows' = mset rows"
  shows "last_entry i rows' = Some b"
proof -
  from assms(4) have s: "set rows' = set rows" by (rule mset_eq_setD)
  with assms(1,2) have "last_entry i rows' \<noteq> None" by (auto simp: last_entry_None_iff)
  then obtain b' where b': "last_entry i rows' = Some b'" by auto
  from last_entry_maximal[OF b'] s assms(1,2)
  have "b' \<in> set rows" "segment_id b' = Some i" "date b \<le> date b'" by auto
  with assms(3) have "b' = b" by force
  with b' show ?thesis by simp
qed

subsection \<open>One call of \<^verbatim>\<open>update_master_log\<close>\<close>

lemmas py_int_simps = py_int_def py_strip_def py_isspace_def py_unsigned_def py_digit_def

lemma write_row_shape:
  "\<exists>h rows. write_row (read_history i f) r f = Csv h (rows @ [r])"
proof (cases f)
  case (Csv h rows)
  show ?thesis
  proof (cases "file_is_empty (read_history i f)")
    case True
    then have "write_row (read_history i f) r f = Csv header ([] @ [r])"
      by (simp add: write_row_def)
    then show ?thesis by blast
  next
    case False
    then have "write_row (read_history i f) r f = Csv h (rows @ [r])"
      using Csv by (simp add: write_row_def file_exists_def)
    then show ?thesis by blast
  qed
next
  case Absent
  then have "write_row (read_history i f) r f = Csv header ([] @ [r])"
    by (simp add: write_row_def read_history_def)
  then show ?thesis by blast
next
  case ZeroLength
  then have "write_row (read_history i f) r f = Csv header ([] @ [r])"
    by (simp add: write_row_def read_history_def)
  then show ?thesis by blast
next
  case NoColumns
  then have "write_row (read_history i f) r f = Csv header ([] @ [r])"
    by (simp add: write_row_def read_history_def)
  then show ?thesis by blast
next
  case Undecodable
  then have "write_row (read_history i f) r f = Csv header ([] @ [r])"
    by (simp add: write_row_def read_history_def)
  then show ?thesis by blast
qed

lemma first_entry_no_rows:
  assumes "\<forall>r\<in>set (log_rows f). segment_id r \<noteq> Some i"
  shows "is_first_entry_for_segment (read_history i f)"
proof (cases f)
  case (Csv h rows)
  with assms have "last_entry i rows = None" by (simp add: last_entry_None_iff)
  with Csv show ?thesis by (simp add: read_history_def)
qed (simp_all add: read_history_def)


lemma new_row_valid_id:
  assumes "py_int (sd_id sd) = Some i"
  shows "new_data_row (update_master_log e sd f) =
           Some \<lparr>segment_id = Some i, segment_name = sd_name sd, date = today e,
                 total_attempts_on_date = Num (or_zero (sd_effort_count sd)),
                 daily_attempts = fst (daily_of (read_history i f) (or_zero (sd_effort_count sd))),
                 athlete_count = or_zero (sd_athlete_count sd)\<rparr>"
  using assms by (simp add: update_master_log_def Let_def)

lemma log_after_valid_id:
  assumes "py_int (sd_id sd) = Some i" "\<not> write_fails e" "new_data_row (update_master_log e sd f) = Some r"
  shows "log_after (update_master_log e sd f) = write_row (read_history i f) r f"
  using assms by (simp add: update_master_log_def Let_def)

subsection \<open>First observation\<close>

text \<open>
  C1. When the snapshot's id is the integer \<open>i\<close> and no data line of the log has the
  segment id \<open>i\<close>, the record that \<^verbatim>\<open>update_master_log\<close> builds has
  \<open>daily_attempts = 0\<close>, whatever the snapshot's counters are; when the write succeeds
  it is the last data line of the file.
\<close>

theorem first_observation_rule:
  assumes "py_int (sd_id sd) = Some i"
      and "\<forall>r\<in>set (log_rows f). segment_id r \<noteq> Some i"
  shows "\<exists>r. new_data_row (update_master_log e sd f) = Some r \<and> segment_id r = Some i \<and>
             daily_attempts r = 0 \<and>
             (\<not> write_fails e \<longrightarrow>
                (\<exists>h rows. log_after (update_master_log e sd f) = Csv h (rows @ [r])))"
proof -
  let ?r = "\<lparr>segment_id = Some i, segment_name = sd_name sd, date = today e,
                 total_attempts_on_date = Num (or_zero (sd_effort_count sd)),
                 daily_attempts = fst (daily_of (read_history i f) (or_zero (sd_effort_count sd))),
                 athlete_count = or_zero (sd_athlete_count sd)\<rparr>"
  have r: "new_data_row (update_master_log e sd f) = Some ?r"
    using assms(1) by (rule new_row_valid_id)
  have d: "daily_attempts ?r = 0"
    using first_entry_no_rows[OF assms(2)] by (simp add: daily_of_def)
  have w: "\<exists>h rows. log_after (update_master_log e sd f) = Csv h (rows @ [?r])" if "\<not> write_fails e"
    using log_after_valid_id[OF assms(1) that r] write_row_shape[of i f ?r] by simp
  from r d w show ?thesis by (intro exI[of _ ?r]) simp
qed

theorem first_observation_rule_witness:
  "py_int ''7'' = Some 7
   \<and> filter (\<lambda>r. segment_id r = Some 7)
        [\<lparr>segment_id = Some 9, segment_name = ''Dune'', date = 738886,
          total_attempts_on_date = Num 80, daily_attempts = 3, athlete_count = 12\<rparr>] = []
   \<and> (\<exists>r. new_data_row (update_master_log \<lparr>today = 738887, write_fails = False\<rparr>
             \<lparr>sd_id = ''7'', sd_name = ''Hill'', sd_effort_count = Some 5000,
              sd_athlete_count = Some 40\<rparr>
             (Csv header
               [\<lparr>segment_id = Some 9, segment_name = ''Dune'', date = 738886,
                 total_attempts_on_date = Num 80, daily_attempts = 3,
                 athlete_count = 12\<rparr>])) = Some r
          \<and> segment_id r = Some 7 \<and> daily_attempts r = 0)"
proof -
  let ?sd = "\<lparr>sd_id = ''7'', sd_name = ''Hill'', sd_effort_count = Some 5000,
              sd_athlete_count = Some 40\<rparr>"
  let ?f = "Csv header
               [\<lparr>segment_id = Some 9, segment_name = ''Dune'', date = 738886,
                 total_attempts_on_date = Num 80, daily_attempts = 3,
                 athlete_count = 12\<rparr>]"
  have p: "py_int ''7'' = Some 7"
    by (simp add: py_int_simps)
  then have h1: "py_int (sd_id ?sd) = Some 7" by simp
  have h2: "\<forall>r\<in>set (log_rows ?f). segment_id r \<noteq> Some 7" by simp
  from first_observation_rule[OF h1 h2, of "\<lparr>today = 738887, write_fails = False\<rparr>"]
  have "\<exists>r. new_data_row (update_master_log \<lparr>today = 738887, write_fails = False\<rparr> ?sd ?f) = Some r
          \<and> segment_id r = Some 7 \<and> daily_attempts r = 0"
    by blast
  with p show ?thesis by simp
qed

subsection \<open>The difference to the baseline\<close>

lemma read_history_baseline:
  assumes "''date'' \<in> set h" "''segment_id'' \<in> set h" "last_entry i rows = Some b"
      and "read_total h b = Some (t, w)"
  shows "read_history i (Csv h rows) =
           \<lparr>last_total_attempts = t, is_first_entry_for_segment = False,
            file_is_empty = False, warnings = w\<rparr>"
proof -
  from assms(3) have "rows \<noteq> []" by (auto simp: last_entry_def segment_df_def split: if_splits)
  with assms show ?thesis by (simp add: read_history_def)
qed

lemma read_total_Num:
  "''total_attempts_on_date'' \<in> set h \<Longrightarrow> total_attempts_on_date b = Num t \<Longrightarrow>
   read_total h b = Some (t, [])"
  by (simp add: read_total_def)

text \<open>
  C2, as stated, fails: with a prior total of 200 and a snapshot total of 150 the new
  record has \<open>daily_attempts = 0\<close>, not \<open>150 - 200\<close>.
\<close>

theorem delta_correctness_counterexample:
  "map_option daily_attempts
     (new_data_row (update_master_log \<lparr>today = 738887, write_fails = False\<rparr>
        \<lparr>sd_id = ''7'', sd_name = ''Hill'', sd_effort_count = Some 150,
         sd_athlete_count = Some 40\<rparr>
        (Csv header
          [\<lparr>segment_id = Some 7, segment_name = ''Hill'', date = 738886,
            total_attempts_on_date = Num 200, daily_attempts = 0,
            athlete_count = 40\<rparr>]))) = Some 0
   \<and> Some (0::int) \<noteq> Some (150 - 200)"
  by (simp add: update_master_log_def py_int_simps read_history_def header_def
        last_entry_def segment_df_def read_total_def daily_of_def or_zero_def Let_def)

text \<open>
  C2, amended. When the log has a record of the snapshot's segment, \<open>b\<close> is the baseline
  record (the last one by date) and its \<^verbatim>\<open>total_attempts_on_date\<close> is the integer \<open>t\<close>,
  the new record has \<open>daily_attempts = max 0 (c - t)\<close>, where \<open>c\<close> is the snapshot's
  cumulative count: the difference when it is not negative, and 0 otherwise. The new
  record stores the snapshot's cumulative attempts and athlete count, and a successful
  write appends it to the file.
\<close>

theorem delta_correctness:
  assumes "py_int (sd_id sd) = Some i"
      and "''date'' \<in> set h" and "''segment_id'' \<in> set h"
      and "''total_attempts_on_date'' \<in> set h"
      and "last_entry i rows = Some b"
      and "total_attempts_on_date b = Num t"
  shows "new_data_row (update_master_log e sd (Csv h rows)) =
           Some \<lparr>segment_id = Some i, segment_name = sd_name sd, date = today e,
                 total_attempts_on_date = Num (or_zero (sd_effort_count sd)),
                 daily_attempts = max 0 (or_zero (sd_effort_count sd) - t),
                 athlete_count = or_zero (sd_athlete_count sd)\<rparr>
         \<and> (\<not> write_fails e \<longrightarrow>
              log_after (update_master_log e sd (Csv h rows)) =
                Csv h (rows @ [\<lparr>segment_id = Some i, segment_name = sd_name sd, date = today e,
                 total_attempts_on_date = Num (or_zero (sd_effort_count sd)),
                 daily_attempts = max 0 (or_zero (sd_effort_count sd) - t),
                 athlete_count = or_zero (sd_athlete_count sd)\<rparr>]))"
proof -
  let ?c = "or_zero (sd_effort_count sd)"
  have hist: "read_history i (Csv h rows) =
           \<lparr>last_total_attempts = t, is_first_entry_for_segment = False,
            file_is_empty = False, warnings = []\<rparr>"
    using read_history_baseline[OF assms(2,3,5) read_total_Num[OF assms(4,6)]] by simp
  then have d: "fst (daily_of (read_history i (Csv h rows)) ?c) = max 0 (?c - t)"
    by (simp add: daily_of_def Let_def max_def)
  have r: "new_data_row (update_master_log e sd (Csv h rows)) =
           Some \<lparr>segment_id = Some i, segment_name = sd_name sd, date = today e,
                 total_attempts_on_date = Num ?c,
                 daily_attempts = max 0 (?c - t),
                 athlete_count = or_zero (sd_athlete_count sd)\<rparr>"
    using new_row_valid_id[OF assms(1), of e "Csv h rows"] d by simp
  have w: "log_after (update_master_log e sd (Csv h rows)) =
                Csv h (rows @ [\<lparr>segment_id = Some i, segment_name = sd_name sd, date = today e,
                 total_attempts_on_date = Num ?c,
                 daily_attempts = max 0 (?c - t),
                 athlete_count = or_zero (sd_athlete_count sd)\<rparr>])" if "\<not> write_fails e"
    using log_after_valid_id[OF assms(1) that r] hist
    by (simp add: write_row_def file_exists_def)
  from r w show ?thesis by blast
qed

theorem delta_correctness_witness:
  "py_int ''7'' = Some 7
   \<and> last_entry 7
        [\<lparr>segment_id = Some 7, segment_name = ''Hill'', date = 738886,
          total_attempts_on_date = Num 100, daily_attempts = 0, athlete_count = 40\<rparr>]
       = Some \<lparr>segment_id = Some 7, segment_name = ''Hill'', date = 738886,
          total_attempts_on_date = Num 100, daily_attempts = 0, athlete_count = 40\<rparr>
   \<and> new_data_row (update_master_log \<lparr>today = 738887, write_fails = False\<rparr>
        \<lparr>sd_id = ''7'', sd_name = ''Hill'', sd_effort_count = Some 137,
         sd_athlete_count = Some 41\<rparr>
        (Csv header
          [\<lparr>segment_id = Some 7, segment_name = ''Hill'', date = 738886,
            total_attempts_on_date = Num 100, daily_attempts = 0, athlete_count = 40\<rparr>]))
       = Some \<lparr>segment_id = Some 7, segment_name = ''Hill'', date = 738887,
               total_attempts_on_date = Num 137, daily_attempts = 37, athlete_count = 41\<rparr>"
proof -
  let ?b = "\<lparr>segment_id = Some 7, segment_name = ''Hill'', date = 738886,
          total_attempts_on_date = Num 100, daily_attempts = 0, athlete_count = 40\<rparr>"
  let ?sd = "\<lparr>sd_id = ''7'', sd_name = ''Hill'', sd_effort_count = Some 137,
         sd_athlete_count = Some 41\<rparr>"
  have p: "py_int ''7'' = Some 7" by (simp add: py_int_simps)
  then have h1: "py_int (sd_id ?sd) = Some 7" by simp
  have h2: "''date'' \<in> set header" "''segment_id'' \<in> set header"
    "''total_attempts_on_date'' \<in> set header" by (simp_all add: header_def)
  have h3: "last_entry 7 [?b] = Some ?b" by (simp add: last_entry_def segment_df_def)
  have h4: "total_attempts_on_date ?b = Num 100" by simp
  from delta_correctness[OF h1 h2 h3 h4, of "\<lparr>today = 738887, write_fails = False\<rparr>"]
  have "new_data_row (update_master_log \<lparr>today = 738887, write_fails = False\<rparr> ?sd (Csv header [?b]))
       = Some \<lparr>segment_id = Some 7, segment_name = ''Hill'', date = 738887,
               total_attempts_on_date = Num 137, daily_attempts = 37, athlete_count = 41\<rparr>"
    by (simp add: or_zero_def)
  with p h3 show ?thesis by simp
qed

subsection \<open>The most recent record by date\<close>

text \<open>
  C3. When \<open>b\<close> is the record of the segment whose date is later than the date of
  every other record of the segment, the baseline is \<open>b\<close>, \<^verbatim>\<open>last_total_attempts\<close>
  is its total and the new record's \<open>daily_attempts\<close> is computed from it, in whatever
  order the records stand in the log (\<open>rows'\<close> is any rearrangement of \<open>rows\<close>) and
  whatever days lie between the dates.
\<close>

theorem most_recent_by_date:
  assumes "''date'' \<in> set h" and "''segment_id'' \<in> set h"
      and "''total_attempts_on_date'' \<in> set h"
      and "b \<in> set rows" and "segment_id b = Some i"
      and "total_attempts_on_date b = Num t"
      and "\<forall>r\<in>set rows. segment_id r = Some i \<and> r \<noteq> b \<longrightarrow> date r < date b"
      and "mset rows' = mset rows"
      and "py_int (sd_id sd) = Some i"
  shows "last_entry i rows' = Some b
         \<and> last_total_attempts (read_history i (Csv h rows')) = t
         \<and> map_option daily_attempts (new_data_row (update_master_log e sd (Csv h rows')))
             = Some (max 0 (or_zero (sd_effort_count sd) - t))"
proof -
  have l: "last_entry i rows' = Some b"
    using assms(4,5,7,8) by (rule last_entry_unique_max)
  from read_history_baseline[OF assms(1,2) l read_total_Num[OF assms(3,6)]]
  have hist: "read_history i (Csv h rows') =
           \<lparr>last_total_attempts = t, is_first_entry_for_segment = False,
            file_is_empty = False, warnings = []\<rparr>" by simp
  then have d: "fst (daily_of (read_history i (Csv h rows')) (or_zero (sd_effort_count sd)))
                  = max 0 (or_zero (sd_effort_count sd) - t)"
    by (simp add: daily_of_def Let_def max_def)
  from new_row_valid_id[OF assms(9), of e "Csv h rows'"] d
  have "map_option daily_attempts (new_data_row (update_master_log e sd (Csv h rows')))
             = Some (max 0 (or_zero (sd_effort_count sd) - t))" by simp
  with l hist show ?thesis by simp
qed

theorem most_recent_by_date_witness:
  "py_int ''7'' = Some 7
   \<and> last_entry 7
     [\<lparr>segment_id = Some 7, segment_name = ''Hill'', date = 738888,
       total_attempts_on_date = Num 25, daily_attempts = 15, athlete_count = 4\<rparr>,
      \<lparr>segment_id = Some 7, segment_name = ''Hill'', date = 738886,
       total_attempts_on_date = Num 10, daily_attempts = 0, athlete_count = 3\<rparr>]
    = Some \<lparr>segment_id = Some 7, segment_name = ''Hill'', date = 738888,
       total_attempts_on_date = Num 25, daily_attempts = 15, athlete_count = 4\<rparr>
   \<and> last_total_attempts (read_history 7 (Csv header
     [\<lparr>segment_id = Some 7, segment_name = ''Hill'', date = 738888,
       total_attempts_on_date = Num 25, daily_attempts = 15, athlete_count = 4\<rparr>,
      \<lparr>segment_id = Some 7, segment_name = ''Hill'', date = 738886,
       total_attempts_on_date = Num 10, daily_attempts = 0, athlete_count = 3\<rparr>])) = 25
   \<and> map_option daily_attempts (new_data_row (update_master_log
        \<lparr>today = 738889, write_fails = False\<rparr>
        \<lparr>sd_id = ''7'', sd_name = ''Hill'', sd_effort_count = Some 31,
         sd_athlete_count = Some 5\<rparr>
        (Csv header
     [\<lparr>segment_id = Some 7, segment_name = ''Hill'', date = 738888,
       total_attempts_on_date = Num 25, daily_attempts = 15, athlete_count = 4\<rparr>,
      \<lparr>segment_id = Some 7, segment_name = ''Hill'', date = 738886,
       total_attempts_on_date = Num 10, daily_attempts = 0, athlete_count = 3\<rparr>]))) = Some 6"
proof -
  let ?a = "\<lparr>segment_id = Some 7, segment_name = ''Hill'', date = 738886,
       total_attempts_on_date = Num 10, daily_attempts = 0, athlete_count = 3\<rparr>"
  let ?b = "\<lparr>segment_id = Some 7, segment_name = ''Hill'', date = 738888,
       total_attempts_on_date = Num 25, daily_attempts = 15, athlete_count = 4\<rparr>"
  let ?sd = "\<lparr>sd_id = ''7'', sd_name = ''Hill'', sd_effort_count = Some 31,
         sd_athlete_count = Some 5\<rparr>"
  have p: "py_int ''7'' = Some 7" by (simp add: py_int_simps)
  then have h0: "py_int (sd_id ?sd) = Some 7" by simp
  have h1: "''date'' \<in> set header" "''segment_id'' \<in> set header"
    "''total_attempts_on_date'' \<in> set header" by (simp_all add: header_def)
  have h2: "?b \<in> set [?a, ?b]" "segment_id ?b = Some 7" "total_attempts_on_date ?b = Num 25"
    by simp_all
  have h3: "\<forall>r\<in>set [?a, ?b]. segment_id r = Some 7 \<and> r \<noteq> ?b \<longrightarrow> date r < date ?b"
    by simp
  have h4: "mset [?b, ?a] = mset [?a, ?b]" by simp
  from most_recent_by_date[OF h1 h2 h3 h4 h0, of "\<lparr>today = 738889, write_fails = False\<rparr>"] p
  show ?thesis by (simp add: or_zero_def)
qed

subsection \<open>The clamp\<close>

lemma write_row_kept:
  "\<exists>h rows. write_row (read_history i f) r f = Csv h (rows @ [r]) \<and> (rows = [] \<or> rows = log_rows f)"
proof (cases "file_is_empty (read_history i f) \<or> \<not> file_exists f")
  case True
  then have "write_row (read_history i f) r f = Csv header ([] @ [r])"
    by (simp add: write_row_def)
  then show ?thesis by blast
next
  case False
  then have ne: "\<not> file_is_empty (read_history i f)" by simp
  then obtain h rows where f: "f = Csv h rows"
    by (cases f) (auto simp: read_history_def)
  with False have "write_row (read_history i f) r f = Csv h (rows @ [r])"
    by (simp add: write_row_def)
  with f show ?thesis by auto
qed

text \<open>
  C4. When the snapshot's cumulative count is below the baseline record's total, the
  new record has \<open>daily_attempts = 0\<close>, the warning is printed, and a successful write
  leaves that record, with its 0, as the last line of the file. No call ever builds a
  record with a negative \<open>daily_attempts\<close>; and after any call the file is as it was
  before, or it ends with a new line whose \<open>daily_attempts\<close> is not negative, behind
  the lines from before or behind the header alone.
\<close>

theorem negative_delta_clamp:
  assumes "py_int (sd_id sd) = Some i"
      and "''date'' \<in> set h" and "''segment_id'' \<in> set h"
      and "''total_attempts_on_date'' \<in> set h"
      and "last_entry i rows = Some b"
      and "total_attempts_on_date b = Num t"
      and "or_zero (sd_effort_count sd) < t"
  shows "map_option daily_attempts (new_data_row (update_master_log e sd (Csv h rows))) = Some 0
       \<and> WarnNegative (or_zero (sd_effort_count sd) - t)
            \<in> set (printed (update_master_log e sd (Csv h rows)))
       \<and> (\<not> write_fails e \<longrightarrow>
            log_after (update_master_log e sd (Csv h rows)) =
              Csv h (rows @ [\<lparr>segment_id = Some i, segment_name = sd_name sd, date = today e,
                 total_attempts_on_date = Num (or_zero (sd_effort_count sd)),
                 daily_attempts = 0,
                 athlete_count = or_zero (sd_athlete_count sd)\<rparr>]))
       \<and> (\<forall>e' sd' f' r. new_data_row (update_master_log e' sd' f') = Some r
             \<longrightarrow> 0 \<le> daily_attempts r)
       \<and> (\<forall>e' sd' f'.
             log_after (update_master_log e' sd' f') = f' \<or>
             (\<exists>h' rows' r. log_after (update_master_log e' sd' f') = Csv h' (rows' @ [r])
                \<and> (rows' = [] \<or> rows' = log_rows f') \<and> 0 \<le> daily_attempts r))"
proof -
  let ?c = "or_zero (sd_effort_count sd)"
  let ?r = "\<lparr>segment_id = Some i, segment_name = sd_name sd, date = today e,
                 total_attempts_on_date = Num ?c, daily_attempts = 0,
                 athlete_count = or_zero (sd_athlete_count sd)\<rparr>"
  have hist: "read_history i (Csv h rows) =
           \<lparr>last_total_attempts = t, is_first_entry_for_segment = False,
            file_is_empty = False, warnings = []\<rparr>"
    using read_history_baseline[OF assms(2,3,5) read_total_Num[OF assms(4,6)]] by simp
  with assms(7) have d: "daily_of (read_history i (Csv h rows)) ?c = (0, [WarnNegative (?c - t)])"
    by (simp add: daily_of_def Let_def)
  have r: "new_data_row (update_master_log e sd (Csv h rows)) = Some ?r"
    using new_row_valid_id[OF assms(1), of e "Csv h rows"] d by simp
  then have a: "map_option daily_attempts (new_data_row (update_master_log e sd (Csv h rows))) = Some 0"
    by simp
  have b: "WarnNegative (?c - t) \<in> set (printed (update_master_log e sd (Csv h rows)))"
    using assms(1) d by (simp add: update_master_log_def Let_def)
  have w: "log_after (update_master_log e sd (Csv h rows)) = Csv h (rows @ [?r])"
    if "\<not> write_fails e"
    using log_after_valid_id[OF assms(1) that r] hist
    by (simp add: write_row_def file_exists_def)
  have nn: "0 \<le> daily_attempts r" if "new_data_row (update_master_log e' sd' f') = Some r"
    for e' sd' f' r
  proof (cases "py_int (sd_id sd')")
    case None
    with that show ?thesis by (simp add: update_master_log_def)
  next
    case (Some j)
    have "0 \<le> fst (daily_of (read_history j f') (or_zero (sd_effort_count sd')))"
      by (simp add: daily_of_def Let_def)
    with new_row_valid_id[OF Some, of e' f'] that show ?thesis by auto
  qed
  have p: "log_after (update_master_log e' sd' f') = f' \<or>
             (\<exists>h' rows' r. log_after (update_master_log e' sd' f') = Csv h' (rows' @ [r])
                \<and> (rows' = [] \<or> rows' = log_rows f') \<and> 0 \<le> daily_attempts r)"
    for e' sd' f'
  proof (cases "py_int (sd_id sd')")
    case None
    then show ?thesis by (simp add: update_master_log_def)
  next
    case (Some j)
    show ?thesis
    proof (cases "write_fails e'")
      case True
      with Some show ?thesis by (simp add: update_master_log_def Let_def)
    next
      case False
      from new_row_valid_id[OF Some, of e' f'] obtain r where
        r': "new_data_row (update_master_log e' sd' f') = Some r" by blast
      from write_row_kept[of j f' r] obtain h' rows' where
        "write_row (read_history j f') r f' = Csv h' (rows' @ [r])"
        "rows' = [] \<or> rows' = log_rows f'" by blast
      with log_after_valid_id[OF Some False r'] nn[OF r'] show ?thesis by auto
    qed
  qed
  from a b w nn p show ?thesis by blast
qed

theorem negative_delta_clamp_witness:
  "py_int ''7'' = Some 7
   \<and> map_option daily_attempts
       (new_data_row (update_master_log \<lparr>today = 738887, write_fails = False\<rparr>
        \<lparr>sd_id = ''7'', sd_name = ''Hill'', sd_effort_count = Some 150,
         sd_athlete_count = Some 40\<rparr>
        (Csv header
          [\<lparr>segment_id = Some 7, segment_name = ''Hill'', date = 738886,
            total_attempts_on_date = Num 200, daily_attempts = 0,
            athlete_count = 40\<rparr>]))) = Some 0
   \<and> WarnNegative (- 50)
       \<in> set (printed (update_master_log \<lparr>today = 738887, write_fails = False\<rparr>
        \<lparr>sd_id = ''7'', sd_name = ''Hill'', sd_effort_count = Some 150,
         sd_athlete_count = Some 40\<rparr>
        (Csv header
          [\<lparr>segment_id = Some 7, segment_name = ''Hill'', date = 738886,
            total_attempts_on_date = Num 200, daily_attempts = 0,
            athlete_count = 40\<rparr>])))
   \<and> log_after (update_master_log \<lparr>today = 738887, write_fails = False\<rparr>
        \<lparr>sd_id = ''7'', sd_name = ''Hill'', sd_effort_count = Some 150,
         sd_athlete_count = Some 40\<rparr>
        (Csv header
          [\<lparr>segment_id = Some 7, segment_name = ''Hill'', date = 738886,
            total_attempts_on_date = Num 200, daily_attempts = 0,
            athlete_count = 40\<rparr>]))
     = Csv header
          [\<lparr>segment_id = Some 7, segment_name = ''Hill'', date = 738886,
            total_attempts_on_date = Num 200, daily_attempts = 0, athlete_count = 40\<rparr>,
           \<lparr>segment_id = Some 7, segment_name = ''Hill'', date = 738887,
            total_attempts_on_date = Num 150, daily_attempts = 0, athlete_count = 40\<rparr>]"
proof -
  let ?b = "\<lparr>segment_id = Some 7, segment_name = ''Hill'', date = 738886,
            total_attempts_on_date = Num 200, daily_attempts = 0, athlete_count = 40\<rparr>"
  let ?sd = "\<lparr>sd_id = ''7'', sd_name = ''Hill'', sd_effort_count = Some 150,
         sd_athlete_count = Some 40\<rparr>"
  let ?e = "\<lparr>today = 738887, write_fails = False\<rparr>"
  have p: "py_int ''7'' = Some 7" by (simp add: py_int_simps)
  then have h1: "py_int (sd_id ?sd) = Some 7" by simp
  have h2: "''date'' \<in> set header" "''segment_id'' \<in> set header"
    "''total_attempts_on_date'' \<in> set header" by (simp_all add: header_def)
  have h3: "last_entry 7 [?b] = Some ?b" by (simp add: last_entry_def segment_df_def)
  have h4: "total_attempts_on_date ?b = Num 200" by simp
  have h5: "or_zero (sd_effort_count ?sd) < 200" by (simp add: or_zero_def)
  have w: "\<not> write_fails ?e" by simp
  from negative_delta_clamp[OF h1 h2 h3 h4 h5, of ?e] p w
  show ?thesis by (simp add: or_zero_def)
qed

subsection \<open>A history that cannot be read\<close>



text \<open>
  C9. When the read ends in the handler of \<^verbatim>\<open>Exception\<close>, a successful write opens
  the file in mode \<^verbatim>\<open>'w'\<close>: afterwards the file is the header and the new record alone,
  and the warning was printed.
\<close>

theorem rewrite_on_unreadable_history:
  assumes "py_int (sd_id sd) = Some i"
      and "\<not> write_fails e"
      and "generic_exception f"
  shows "\<exists>r. new_data_row (update_master_log e sd f) = Some r
           \<and> log_after (update_master_log e sd f) = Csv header [r]
           \<and> WarnUnparseable \<in> set (printed (update_master_log e sd f))"
proof -
  from assms(3) have h: "file_is_empty (read_history i f) \<and> warnings (read_history i f) = [WarnUnparseable]"
    by (cases f) (auto simp: read_history_def)
  from new_row_valid_id[OF assms(1), of e f] obtain r where
    r: "new_data_row (update_master_log e sd f) = Some r" by blast
  from log_after_valid_id[OF assms(1,2) r] h
  have "log_after (update_master_log e sd f) = Csv header [r]"
    by (simp add: write_row_def)
  moreover have "WarnUnparseable \<in> set (printed (update_master_log e sd f))"
    using assms(1,2) h by (simp add: update_master_log_def Let_def)
  ultimately show ?thesis using r by blast
qed

theorem rewrite_on_unreadable_history_witness:
  "py_int ''7'' = Some 7
   \<and> generic_exception (Csv [''segment_id'', ''segment_name'', ''day'']
        [\<lparr>segment_id = Some 7, segment_name = ''Hill'', date = 738886,
          total_attempts_on_date = Num 200, daily_attempts = 0, athlete_count = 40\<rparr>])
   \<and> log_after (update_master_log \<lparr>today = 738887, write_fails = False\<rparr>
        \<lparr>sd_id = ''7'', sd_name = ''Hill'', sd_effort_count = Some 150,
         sd_athlete_count = Some 40\<rparr>
        (Csv [''segment_id'', ''segment_name'', ''day'']
        [\<lparr>segment_id = Some 7, segment_name = ''Hill'', date = 738886,
          total_attempts_on_date = Num 200, daily_attempts = 0, athlete_count = 40\<rparr>]))
     = Csv header [\<lparr>segment_id = Some 7, segment_name = ''Hill'', date = 738887,
          total_attempts_on_date = Num 150, daily_attempts = 0, athlete_count = 40\<rparr>]"
proof -
  let ?f = "Csv [''segment_id'', ''segment_name'', ''day'']
        [\<lparr>segment_id = Some 7, segment_name = ''Hill'', date = 738886,
          total_attempts_on_date = Num 200, daily_attempts = 0, athlete_count = 40\<rparr>]"
  let ?sd = "\<lparr>sd_id = ''7'', sd_name = ''Hill'', sd_effort_count = Some 150,
         sd_athlete_count = Some 40\<rparr>"
  let ?e = "\<lparr>today = 738887, write_fails = False\<rparr>"
  have p: "py_int ''7'' = Some 7" by (simp add: py_int_simps)
  then have h1: "py_int (sd_id ?sd) = Some 7" by simp
  have h2: "\<not> write_fails ?e" by simp
  have h3: "generic_exception ?f" by simp
  from rewrite_on_unreadable_history[OF h1 h2 h3] obtain r where
    r: "new_data_row (update_master_log ?e ?sd ?f) = Some r"
       "log_after (update_master_log ?e ?sd ?f) = Csv header [r]" by blast
  from r(1) new_row_valid_id[OF h1, of ?e ?f]
  have "r = \<lparr>segment_id = Some 7, segment_name = ''Hill'', date = 738887,
          total_attempts_on_date = Num 150, daily_attempts = 0, athlete_count = 40\<rparr>"
    by (simp add: or_zero_def daily_of_def read_history_def)
  with r(2) p h3 show ?thesis by simp
qed

subsection \<open>An id that is not an integer\<close>

text \<open>
  C10. When \<^verbatim>\<open>int\<close> rejects the snapshot's id, the call returns with the file as it
  was and no record; it prints the error line and nothing else.
\<close>

theorem invalid_id_is_noop:
  assumes "py_int (sd_id sd) = None"
  shows "update_master_log e sd f =
           \<lparr>log_after = f, new_data_row = None, printed = [ErrInvalidId (sd_id sd)]\<rparr>"
  using assms by (simp add: update_master_log_def)

theorem invalid_id_is_noop_witness:
  "py_int ''12a'' = None
   \<and> update_master_log \<lparr>today = 738887, write_fails = False\<rparr>
        \<lparr>sd_id = ''12a'', sd_name = ''Hill'', sd_effort_count = Some 150,
         sd_athlete_count = Some 40\<rparr> Absent
     = \<lparr>log_after = Absent, new_data_row = None, printed = [ErrInvalidId ''12a'']\<rparr>"
proof -
  let ?sd = "\<lparr>sd_id = ''12a'', sd_name = ''Hill'', sd_effort_count = Some 150,
         sd_athlete_count = Some 40\<rparr>"
  have p: "py_int ''12a'' = None" by (simp add: py_int_simps)
  then have h1: "py_int (sd_id ?sd) = None" by simp
  from invalid_id_is_noop[OF h1, of "\<lparr>today = 738887, write_fails = False\<rparr>" Absent] p
  show ?thesis by simp
qed

subsection \<open>A sequence of calls\<close>

lemma fits_header_header: "fits_header header"
  by (simp add: fits_header_def header_def)

lemma read_total_not_Inf:
  "total_attempts_on_date r \<noteq> Inf \<Longrightarrow> \<exists>t w. read_total h r = Some (t, w)"
  by (cases "total_attempts_on_date r") (auto simp: read_total_def split: option.splits)

lemma append_safe_not_empty:
  assumes "append_safe (Csv h rows)" "rows \<noteq> []"
  shows "\<not> file_is_empty (read_history i (Csv h rows))"
proof -
  from assms have d: "''date'' \<in> set h" and rr: "list_all (record_readable h) rows" by auto
  show ?thesis
  proof (cases "''segment_id'' \<in> set h")
    case False
    with d assms(2) show ?thesis by (simp add: read_history_def)
  next
    case True
    show ?thesis
    proof (cases "last_entry i rows")
      case None
      with d True assms(2) show ?thesis by (simp add: read_history_def)
    next
      case (Some b)
      from last_entry_maximal[OF Some] have "b \<in> set rows" by simp
      with rr have "total_attempts_on_date b \<noteq> Inf"
        by (auto simp: list_all_iff record_readable_def)
      from read_total_not_Inf[OF this, of h] obtain t w where "read_total h b = Some (t, w)"
        by blast
      from read_history_baseline[OF d True Some this] show ?thesis by simp
    qed
  qed
qed

lemma after_call_unchanged:
  assumes "py_int (sd_id sd) = None \<or> write_fails e"
  shows "after_call e sd f = f"
proof (cases "py_int (sd_id sd)")
  case None
  then show ?thesis by (simp add: after_call_def update_master_log_def)
next
  case (Some i)
  with assms have w: "write_fails e" by simp
  with Some show ?thesis by (simp add: after_call_def update_master_log_def Let_def)
qed

lemma after_call_safe:
  assumes "append_safe f" "id_fits sd" "py_int (sd_id sd) = Some i" "\<not> write_fails e"
  shows "\<exists>h r. after_call e sd f = Csv h (log_rows f @ [r]) \<and> append_safe (Csv h (log_rows f @ [r]))"
proof -
  from new_row_valid_id[OF assms(3), of e f] obtain r where
    r: "new_data_row (update_master_log e sd f) = Some r"
    and s: "segment_id r = Some i" and t: "total_attempts_on_date r \<noteq> Inf" by simp
  from assms(2,3) have i: "in_int64 i" by (simp add: id_fits_def)
  have la: "log_after (update_master_log e sd f) = write_row (read_history i f) r f"
    using assms(3,4) r by (rule log_after_valid_id)
  have "\<exists>h. write_row (read_history i f) r f = Csv h (log_rows f @ [r])
            \<and> ''date'' \<in> set h \<and> list_all (record_readable h) (log_rows f @ [r])"
  proof (cases f)
    case (Csv h rows)
    show ?thesis
    proof (cases "rows = []")
      case True
      with Csv have "file_is_empty (read_history i f)" by (simp add: read_history_def)
      with Csv True s i t show ?thesis
        using fits_header_header
        by (simp add: write_row_def record_readable_def line_readable_def)
           (simp add: header_def)
    next
      case False
      with Csv assms(1) have ne: "\<not> file_is_empty (read_history i f)"
        using append_safe_not_empty by blast
      from Csv False assms(1) have d: "''date'' \<in> set h"
        and rr: "list_all (record_readable h) rows" by auto
      from rr False have "fits_header h"
        by (cases rows) (auto simp: record_readable_def line_readable_def)
      with s i t have "record_readable h r"
        by (simp add: record_readable_def line_readable_def)
      with Csv ne d rr show ?thesis by (simp add: write_row_def file_exists_def)
    qed
  next
    case Undecodable
    with assms(1) show ?thesis by simp
  next
    case Absent
    with s i t fits_header_header show ?thesis
      by (simp add: write_row_def read_history_def record_readable_def line_readable_def)
         (simp add: header_def)
  next
    case ZeroLength
    with s i t fits_header_header show ?thesis
      by (simp add: write_row_def read_history_def record_readable_def line_readable_def)
         (simp add: header_def)
  next
    case NoColumns
    with s i t fits_header_header show ?thesis
      by (simp add: write_row_def read_history_def record_readable_def line_readable_def)
         (simp add: header_def)
  qed
  then obtain h where w: "write_row (read_history i f) r f = Csv h (log_rows f @ [r])"
    and d: "''date'' \<in> set h" and rr: "list_all (record_readable h) (log_rows f @ [r])" by blast
  from rr have "line_readable h r" by (simp add: record_readable_def)
  with la w r assms(4) have "after_call e sd f = Csv h (log_rows f @ [r])"
    by (simp add: after_call_def Let_def)
  with d rr show ?thesis by auto
qed

lemma after_call_step:
  assumes "append_safe f" "id_fits sd"
  shows "append_safe (after_call e sd f)
       \<and> take (length (log_rows f)) (log_rows (after_call e sd f)) = log_rows f
       \<and> length (log_rows (after_call e sd f))
           = length (log_rows f) + (if appending (e, sd) then 1 else 0)"
proof (cases "appending (e, sd)")
  case True
  then obtain i where i: "py_int (sd_id sd) = Some i" and w: "\<not> write_fails e"
    by (auto simp: appending_def)
  from after_call_safe[OF assms i w] obtain h r where
    "after_call e sd f = Csv h (log_rows f @ [r])" "append_safe (Csv h (log_rows f @ [r]))"
    by blast
  with True show ?thesis by simp
next
  case False
  then have "py_int (sd_id sd) = None \<or> write_fails e" by (auto simp: appending_def)
  from after_call_unchanged[OF this] False assms(1) show ?thesis by simp
qed

lemmas call_simps = after_call_def update_master_log_def py_int_simps read_history_def
  write_row_def daily_of_def or_zero_def Let_def header_def last_entry_def segment_df_def
  read_total_def file_exists_def line_readable_def fits_header_def in_int64_def

text \<open>
  C5, as stated, fails: from a log whose header has no column \<^verbatim>\<open>date\<close> and that holds
  one data line, one call leaves the header and the new line only. The old line is gone
  and the count is 1, not 1 + 1.
\<close>

theorem append_only_counterexample:
  "log_rows (update_all
      [(\<lparr>today = 738887, write_fails = False\<rparr>,
        \<lparr>sd_id = ''7'', sd_name = ''Hill'', sd_effort_count = Some 150,
         sd_athlete_count = Some 40\<rparr>)]
      (Csv [''segment_id'', ''segment_name'', ''day'', ''total_attempts_on_date'',
            ''daily_attempts'', ''athlete_count'']
        [\<lparr>segment_id = Some 7, segment_name = ''Hill'', date = 738886,
          total_attempts_on_date = Num 100, daily_attempts = 0, athlete_count = 40\<rparr>]))
   = [\<lparr>segment_id = Some 7, segment_name = ''Hill'', date = 738887,
          total_attempts_on_date = Num 150, daily_attempts = 0, athlete_count = 40\<rparr>]
   \<and> length [\<lparr>segment_id = Some 7, segment_name = ''Hill'', date = 738887,
          total_attempts_on_date = Num 150, daily_attempts = 0, athlete_count = 40\<rparr>]
       \<noteq> length (log_rows (Csv [''segment_id'', ''segment_name'', ''day'', ''total_attempts_on_date'',
            ''daily_attempts'', ''athlete_count'']
        [\<lparr>segment_id = Some 7, segment_name = ''Hill'', date = 738886,
          total_attempts_on_date = Num 100, daily_attempts = 0, athlete_count = 40\<rparr>])) + 1"
  by (simp add: after_call_def update_master_log_def py_int_simps read_history_def write_row_def
        daily_of_def or_zero_def Let_def line_readable_def fits_header_header in_int64_def)

text \<open>
  A header that a written line does not fit has the same end one call later: the
  first call appends, the second cannot read the file and writes it anew.
\<close>

lemma narrow_header_is_rewritten:
  "log_rows (update_all
      [(\<lparr>today = 738887, write_fails = False\<rparr>,
        \<lparr>sd_id = ''7'', sd_name = ''Hill'', sd_effort_count = Some 150, sd_athlete_count = Some 40\<rparr>),
       (\<lparr>today = 738888, write_fails = False\<rparr>,
        \<lparr>sd_id = ''7'', sd_name = ''Hill'', sd_effort_count = Some 170, sd_athlete_count = Some 41\<rparr>)]
      (Csv [''segment_id'', ''date'']
        [\<lparr>segment_id = Some 7, segment_name = [], date = 738886,
          total_attempts_on_date = NaN, daily_attempts = 0, athlete_count = 0\<rparr>]))
   = [\<lparr>segment_id = Some 7, segment_name = ''Hill'', date = 738888,
          total_attempts_on_date = Num 170, daily_attempts = 0, athlete_count = 41\<rparr>]"
  by (simp add: call_simps)

text \<open>
  C5, amended. Start from a log that is \<open>append_safe\<close>: missing, without a data line,
  or with the column \<^verbatim>\<open>date\<close>, a header that fits the lines the program writes, and
  data lines that are records which the program reads without an exception. Run any
  sequence of calls in which every id that is an integer is in the range of
  \<^verbatim>\<open>Int64\<close>. Then the data lines from before are still the first lines of the log,
  unchanged and in their order, whatever the calls were; the number of data lines has
  grown by the number of calls that write (the id is an integer and the write
  succeeds); so it has grown by the number of calls when all of them write.
\<close>

theorem append_only:
  assumes "append_safe f"
      and "list_all (\<lambda>c. id_fits (snd c)) cs"
  shows "take (length (log_rows f)) (log_rows (update_all cs f)) = log_rows f
       \<and> length (log_rows (update_all cs f)) = length (log_rows f) + length (filter appending cs)
       \<and> (list_all appending cs \<longrightarrow>
            length (log_rows (update_all cs f)) = length (log_rows f) + length cs)"
proof -
  have main: "take (length (log_rows f)) (log_rows (update_all cs f)) = log_rows f
       \<and> length (log_rows (update_all cs f)) = length (log_rows f) + length (filter appending cs)"
    using assms
  proof (induction cs arbitrary: f)
    case Nil
    then show ?case by simp
  next
    case (Cons c cs)
    obtain e sd where c: "c = (e, sd)" by (cases c)
    with Cons.prems(2) have fit: "id_fits sd"
      and rest: "list_all (\<lambda>c. id_fits (snd c)) cs" by simp_all
    let ?f' = "after_call e sd f"
    from after_call_step[OF Cons.prems(1) fit, of e]
    have safe: "append_safe ?f'"
      and pre: "take (length (log_rows f)) (log_rows ?f') = log_rows f"
      and len: "length (log_rows ?f') = length (log_rows f) + (if appending (e, sd) then 1 else 0)"
      by simp_all
    from Cons.IH[OF safe rest]
    have t: "take (length (log_rows ?f')) (log_rows (update_all cs ?f')) = log_rows ?f'"
      and l: "length (log_rows (update_all cs ?f'))
                = length (log_rows ?f') + length (filter appending cs)"
      by simp_all
    from len have le: "length (log_rows f) \<le> length (log_rows ?f')" by simp
    have "take (length (log_rows f)) (log_rows (update_all cs ?f'))
            = take (length (log_rows f)) (take (length (log_rows ?f')) (log_rows (update_all cs ?f')))"
      using le by (simp add: min_def)
    also have "\<dots> = log_rows f" using t pre by simp
    finally have "take (length (log_rows f)) (log_rows (update_all cs ?f')) = log_rows f" .
    with l len c show ?case by simp
  qed
  moreover have "filter appending cs = cs" if "list_all appending cs"
    using that by (simp add: list_all_iff)
  ultimately show ?thesis by auto
qed

theorem append_only_witness:
  "append_safe (Csv header
        [\<lparr>segment_id = Some 7, segment_name = ''Hill'', date = 738886,
          total_attempts_on_date = Num 100, daily_attempts = 0, athlete_count = 40\<rparr>])
   \<and> log_rows (update_all
      [(\<lparr>today = 738887, write_fails = False\<rparr>,
        \<lparr>sd_id = ''7'', sd_name = ''Hill'', sd_effort_count = Some 150, sd_athlete_count = Some 40\<rparr>),
       (\<lparr>today = 738887, write_fails = False\<rparr>,
        \<lparr>sd_id = ''12a'', sd_name = ''Dune'', sd_effort_count = Some 9, sd_athlete_count = Some 2\<rparr>),
       (\<lparr>today = 738888, write_fails = False\<rparr>,
        \<lparr>sd_id = ''7'', sd_name = ''Hill'', sd_effort_count = Some 170, sd_athlete_count = Some 41\<rparr>)]
      (Csv header
        [\<lparr>segment_id = Some 7, segment_name = ''Hill'', date = 738886,
          total_attempts_on_date = Num 100, daily_attempts = 0, athlete_count = 40\<rparr>]))
     = [\<lparr>segment_id = Some 7, segment_name = ''Hill'', date = 738886,
          total_attempts_on_date = Num 100, daily_attempts = 0, athlete_count = 40\<rparr>,
        \<lparr>segment_id = Some 7, segment_name = ''Hill'', date = 738887,
          total_attempts_on_date = Num 150, daily_attempts = 50, athlete_count = 40\<rparr>,
        \<lparr>segment_id = Some 7, segment_name = ''Hill'', date = 738888,
          total_attempts_on_date = Num 170, daily_attempts = 20, athlete_count = 41\<rparr>]
   \<and> length (log_rows (update_all
      [(\<lparr>today = 738887, write_fails = False\<rparr>,
        \<lparr>sd_id = ''7'', sd_name = ''Hill'', sd_effort_count = Some 150, sd_athlete_count = Some 40\<rparr>),
       (\<lparr>today = 738887, write_fails = False\<rparr>,
        \<lparr>sd_id = ''12a'', sd_name = ''Dune'', sd_effort_count = Some 9, sd_athlete_count = Some 2\<rparr>),
       (\<lparr>today = 738888, write_fails = False\<rparr>,
        \<lparr>sd_id = ''7'', sd_name = ''Hill'', sd_effort_count = Some 170, sd_athlete_count = Some 41\<rparr>)]
      (Csv header
        [\<lparr>segment_id = Some 7, segment_name = ''Hill'', date = 738886,
          total_attempts_on_date = Num 100, daily_attempts = 0, athlete_count = 40\<rparr>]))) = 1 + 2"
proof -
  let ?f = "Csv header
        [\<lparr>segment_id = Some 7, segment_name = ''Hill'', date = 738886,
          total_attempts_on_date = Num 100, daily_attempts = 0, athlete_count = 40\<rparr>]"
  let ?cs = "[(\<lparr>today = 738887, write_fails = False\<rparr>,
        \<lparr>sd_id = ''7'', sd_name = ''Hill'', sd_effort_count = Some 150, sd_athlete_count = Some 40\<rparr>),
       (\<lparr>today = 738887, write_fails = False\<rparr>,
        \<lparr>sd_id = ''12a'', sd_name = ''Dune'', sd_effort_count = Some 9, sd_athlete_count = Some 2\<rparr>),
       (\<lparr>today = 738888, write_fails = False\<rparr>,
        \<lparr>sd_id = ''7'', sd_name = ''Hill'', sd_effort_count = Some 170, sd_athlete_count = Some 41\<rparr>)]"
  have p: "py_int ''7'' = Some 7" "py_int ''12a'' = None" by (simp_all add: py_int_simps)
  have h1: "append_safe ?f"
    using fits_header_header
    by (simp add: record_readable_def line_readable_def in_int64_def) (simp add: header_def)
  have h2: "list_all (\<lambda>c. id_fits (snd c)) ?cs"
    using p by (simp add: id_fits_def in_int64_def)
  have n: "length (filter appending ?cs) = 2"
    using p by (simp add: appending_def)
  have v: "log_rows (update_all ?cs ?f)
     = [\<lparr>segment_id = Some 7, segment_name = ''Hill'', date = 738886,
          total_attempts_on_date = Num 100, daily_attempts = 0, athlete_count = 40\<rparr>,
        \<lparr>segment_id = Some 7, segment_name = ''Hill'', date = 738887,
          total_attempts_on_date = Num 150, daily_attempts = 50, athlete_count = 40\<rparr>,
        \<lparr>segment_id = Some 7, segment_name = ''Hill'', date = 738888,
          total_attempts_on_date = Num 170, daily_attempts = 20, athlete_count = 41\<rparr>]"
    by (simp add: call_simps)
  from append_only[OF h1 h2] n have "length (log_rows (update_all ?cs ?f)) = 1 + 2" by simp
  with v h1 show ?thesis by simp
qed

subsection \<open>The series of the chart\<close>

lemma Min_sorted_hd:
  assumes "sorted (xs :: int list)" "xs \<noteq> []"
  shows "Min (set xs) = hd xs"
proof -
  from assms obtain y ys where xs: "xs = y # ys" by (cases xs) auto
  with assms(1) have "\<forall>z\<in>set ys. y \<le> z" by simp
  then have "Min (insert y (set ys)) = y"
    by (intro Min_eqI) auto
  with xs show ?thesis by simp
qed

lemma generate_plot_saved:
  assumes "''date'' \<in> set h" and "''segment_id'' \<in> set h" and "''daily_attempts'' \<in> set h"
      and "py_int sid = Some i"
      and "r0 \<in> set rows" and "segment_id r0 = Some i"
  shows "generate_plot sid title (Csv h rows) =
           Saved ((Min (date ` {r \<in> set rows. segment_id r = Some i}) - 1, 0) #
                  map (\<lambda>r. (date r, daily_attempts r)) (segment_df i rows))"
proof -
  let ?df = "filter (\<lambda>r. segment_id r = Some i) rows"
  from assms(5,6) have ne: "?df \<noteq> []" by (auto simp: filter_empty_conv)
  have s: "set (map date (sort_key date ?df)) = date ` {r \<in> set rows. segment_id r = Some i}"
    by auto
  show ?thesis
    using assms(1-4) ne s by (simp add: generate_plot_def segment_df_def Let_def del: set_map)
qed

text \<open>
  C7. When the log has the columns that the renderer reads and at least one record of
  the segment, the series starts with the point one day before the earliest date of the
  segment's records, with value 0, and goes on with the segment's records in ascending
  order of date: \<open>segment_df\<close> is sorted, it holds exactly the segment's records, and
  its first date is the earliest one.
\<close>

theorem renderer_baseline:
  assumes "''date'' \<in> set h" and "''segment_id'' \<in> set h" and "''daily_attempts'' \<in> set h"
      and "py_int sid = Some i"
      and "r0 \<in> set rows" and "segment_id r0 = Some i"
  shows "generate_plot sid title (Csv h rows) =
           Saved ((Min (date ` {r \<in> set rows. segment_id r = Some i}) - 1, 0) #
                  map (\<lambda>r. (date r, daily_attempts r)) (segment_df i rows))
         \<and> sorted (map date (segment_df i rows))
         \<and> mset (segment_df i rows) = filter_mset (\<lambda>r. segment_id r = Some i) (mset rows)
         \<and> date (hd (segment_df i rows)) = Min (date ` {r \<in> set rows. segment_id r = Some i})"
proof -
  have g: "generate_plot sid title (Csv h rows) =
           Saved ((Min (date ` {r \<in> set rows. segment_id r = Some i}) - 1, 0) #
                  map (\<lambda>r. (date r, daily_attempts r)) (segment_df i rows))"
    using assms by (rule generate_plot_saved)
  have so: "sorted (map date (segment_df i rows))" by (rule sorted_segment_df)
  have m: "mset (segment_df i rows) = filter_mset (\<lambda>r. segment_id r = Some i) (mset rows)"
    by (simp add: segment_df_def)
  from assms(5,6) have ne: "segment_df i rows \<noteq> []" by (auto simp: segment_df_empty_iff)
  then have "Min (set (map date (segment_df i rows))) = hd (map date (segment_df i rows))"
    using so by (intro Min_sorted_hd) simp_all
  with ne have hdm: "date (hd (segment_df i rows)) = Min (date ` {r \<in> set rows. segment_id r = Some i})"
    by (simp add: hd_map set_segment_df)
  from g so m hdm show ?thesis by blast
qed

theorem renderer_baseline_witness:
  "py_int ''7'' = Some 7
   \<and> generate_plot ''7'' ''Hill'' (Csv header
       [\<lparr>segment_id = Some 7, segment_name = ''Hill'', date = 738888,
         total_attempts_on_date = Num 30, daily_attempts = 12, athlete_count = 4\<rparr>,
        \<lparr>segment_id = Some 9, segment_name = ''Dune'', date = 738880,
         total_attempts_on_date = Num 5, daily_attempts = 5, athlete_count = 1\<rparr>,
        \<lparr>segment_id = Some 7, segment_name = ''Hill'', date = 738886,
         total_attempts_on_date = Num 18, daily_attempts = 8, athlete_count = 3\<rparr>])
     = Saved [(738885, 0), (738886, 8), (738888, 12)]"
proof -
  let ?a = "\<lparr>segment_id = Some 7, segment_name = ''Hill'', date = 738888,
         total_attempts_on_date = Num 30, daily_attempts = 12, athlete_count = 4\<rparr>"
  let ?b = "\<lparr>segment_id = Some 9, segment_name = ''Dune'', date = 738880,
         total_attempts_on_date = Num 5, daily_attempts = 5, athlete_count = 1\<rparr>"
  let ?c = "\<lparr>segment_id = Some 7, segment_name = ''Hill'', date = 738886,
         total_attempts_on_date = Num 18, daily_attempts = 8, athlete_count = 3\<rparr>"
  have p: "py_int ''7'' = Some 7" by (simp add: py_int_simps)
  have h: "''date'' \<in> set header" "''segment_id'' \<in> set header"
    "''daily_attempts'' \<in> set header" by (simp_all add: header_def)
  have m: "?a \<in> set [?a, ?b, ?c]" "segment_id ?a = Some 7" by simp_all
  have e: "{r \<in> set [?a, ?b, ?c]. segment_id r = Some 7} = {?a, ?c}" by auto
  have sd: "segment_df 7 [?a, ?b, ?c] = [?c, ?a]" by (simp add: segment_df_def)
  from renderer_baseline[OF h p m, of "''Hill''"] e sd p
  show ?thesis by simp
qed

subsection \<open>A run in which some requests fail\<close>

lemma length_fetched: "length (fetched reqs) \<le> length reqs"
proof (induction reqs)
  case Nil
  show ?case by simp
next
  case (Cons a reqs)
  obtain sid resp where a: "a = (sid, resp)" by (cases a)
  with Cons show ?case by (simp split: fetch.splits option.splits)
qed

lemma fetch_loop_fetched:
  "fetch_loop reqs (ds, p, e) =
     (ds @ fetched reqs, p + length (fetched reqs), e + (length reqs - length (fetched reqs)))"
proof (induction reqs arbitrary: ds p e)
  case Nil
  show ?case by simp
next
  case (Cons a reqs)
  obtain sid resp where a: "a = (sid, resp)" by (cases a)
  have le: "length (fetched reqs) \<le> length reqs" by (rule length_fetched)
  show ?case
  proof (cases "get_segment_data sid resp")
    case Raised
    with a le show ?thesis by (simp add: Cons.IH Suc_diff_le)
  next
    case (Returned x)
    show ?thesis
    proof (cases x)
      case None
      with Returned a le show ?thesis by (simp add: Cons.IH Suc_diff_le)
    next
      case (Some d)
      with Returned a show ?thesis by (simp add: Cons.IH)
    qed
  qed
qed

lemma snapshot_ok_call:
  assumes "snapshot_ok d"
  shows "\<exists>i sd. py_int (sd_id sd) = Some i \<and> py_int (d_id d) = Some i \<and> in_int64 i
           \<and> call_dict e d f = Inr (after_call e sd f)"
proof -
  from assms obtain i where i: "py_int (d_id d) = Some i" "in_int64 i"
    by (auto simp: snapshot_ok_def split: option.splits)
  from assms obtain sd where sd: "snapshot_of d = Inr sd"
    by (auto simp: snapshot_ok_def split: sum.splits)
  then have "sd_id sd = d_id d"
    by (auto simp: snapshot_of_def split: sum.splits json.splits)
  with i sd have "py_int (sd_id sd) = Some i \<and> py_int (d_id d) = Some i \<and> in_int64 i
           \<and> call_dict e d f = Inr (after_call e sd f)"
    by (simp add: call_dict_def)
  then show ?thesis by blast
qed

lemma after_call_chartable:
  assumes "chartable f" "\<not> write_fails e" "py_int (sd_id sd) = Some i" "in_int64 i"
  shows "\<exists>h r. after_call e sd f = Csv h (kept_rows f @ [r])
           \<and> segment_id r = Some i
           \<and> ''date'' \<in> set h \<and> ''segment_id'' \<in> set h \<and> ''daily_attempts'' \<in> set h
           \<and> list_all (record_readable h) (kept_rows f @ [r])"
proof -
  from new_row_valid_id[OF assms(3), of e f] obtain r where
    r: "new_data_row (update_master_log e sd f) = Some r"
    and s: "segment_id r = Some i" and t: "total_attempts_on_date r \<noteq> Inf" by simp
  have la: "log_after (update_master_log e sd f) = write_row (read_history i f) r f"
    using assms(3,2) r by (rule log_after_valid_id)
  have fresh: "record_readable header r"
    using s t assms(4) fits_header_header
    by (simp add: record_readable_def line_readable_def)
  have cols: "''date'' \<in> set header" "''segment_id'' \<in> set header"
    "''daily_attempts'' \<in> set header" by (simp_all add: header_def)
  have "\<exists>h. write_row (read_history i f) r f = Csv h (kept_rows f @ [r])
           \<and> ''date'' \<in> set h \<and> ''segment_id'' \<in> set h \<and> ''daily_attempts'' \<in> set h
           \<and> list_all (record_readable h) (kept_rows f @ [r])"
  proof (cases f)
    case (Csv h rows)
    show ?thesis
    proof (cases "''date'' \<in> set h \<and> rows \<noteq> []")
      case True
      with Csv assms(1) have c: "''segment_id'' \<in> set h" "''daily_attempts'' \<in> set h"
        and rr: "list_all (record_readable h) rows" by simp_all
      from True rr have "append_safe (Csv h rows)" by simp
      with True Csv have ne: "\<not> file_is_empty (read_history i f)"
        using append_safe_not_empty by blast
      from rr True have "fits_header h"
        by (cases rows) (auto simp: record_readable_def line_readable_def)
      with s t assms(4) have "record_readable h r"
        by (simp add: record_readable_def line_readable_def)
      with Csv True c rr ne show ?thesis by (simp add: write_row_def file_exists_def)
    next
      case False
      with Csv have "file_is_empty (read_history i f)" by (auto simp: read_history_def)
      moreover from False Csv have "kept_rows f = []" by auto
      ultimately show ?thesis using fresh cols by (simp add: write_row_def)
    qed
  next
    case Absent
    with fresh cols show ?thesis by (simp add: write_row_def read_history_def)
  next
    case ZeroLength
    with fresh cols show ?thesis by (simp add: write_row_def read_history_def)
  next
    case NoColumns
    with fresh cols show ?thesis by (simp add: write_row_def read_history_def)
  next
    case Undecodable
    with fresh cols show ?thesis by (simp add: write_row_def read_history_def)
  qed
  then obtain h where w: "write_row (read_history i f) r f = Csv h (kept_rows f @ [r])"
    and c: "''date'' \<in> set h" "''segment_id'' \<in> set h" "''daily_attempts'' \<in> set h"
    and rr: "list_all (record_readable h) (kept_rows f @ [r])" by blast
  from rr have "line_readable h r" by (simp add: record_readable_def)
  with la w r assms(2) have "after_call e sd f = Csv h (kept_rows f @ [r])"
    by (simp add: after_call_def Let_def)
  with s c rr show ?thesis by blast
qed

lemma update_loop_appends:
  assumes "\<not> write_fails e" "list_all snapshot_ok ds"
      and "''date'' \<in> set h" "''segment_id'' \<in> set h" "''daily_attempts'' \<in> set h"
      and "rows \<noteq> []" "list_all (record_readable h) rows"
  shows "\<exists>new. update_loop e ds (Csv h rows) = (Csv h (rows @ new), None)
           \<and> map segment_id new = map (\<lambda>d. py_int (d_id d)) ds"
  using assms(2,6,7)
proof (induction ds arbitrary: rows)
  case Nil
  then show ?case by simp
next
  case (Cons d ds)
  from Cons.prems(1) have ok: "snapshot_ok d" and rest: "list_all snapshot_ok ds" by simp_all
  from snapshot_ok_call[OF ok, of e "Csv h rows"] obtain i sd where
    i: "py_int (sd_id sd) = Some i" "py_int (d_id d) = Some i" "in_int64 i"
    and cd: "call_dict e d (Csv h rows) = Inr (after_call e sd (Csv h rows))" by blast
  have ch: "chartable (Csv h rows)" using assms(4,5) Cons.prems(3) by simp
  have k: "kept_rows (Csv h rows) = rows" using assms(3) by simp
  from after_call_chartable[OF ch assms(1) i(1,3)] obtain h' r where
    ac: "after_call e sd (Csv h rows) = Csv h' (kept_rows (Csv h rows) @ [r])"
    and s: "segment_id r = Some i"
    and rr: "list_all (record_readable h') (kept_rows (Csv h rows) @ [r])" by blast
  from Cons.prems(2) assms(3) have "\<not> file_is_empty (read_history i (Csv h rows))"
    using append_safe_not_empty[of h rows i] Cons.prems(3) by simp
  have hh: "h' = h"
  proof -
    from new_row_valid_id[OF i(1), of e "Csv h rows"] obtain r' where
      r': "new_data_row (update_master_log e sd (Csv h rows)) = Some r'" by blast
    from log_after_valid_id[OF i(1) assms(1) r']
      \<open>\<not> file_is_empty (read_history i (Csv h rows))\<close>
    have "log_after (update_master_log e sd (Csv h rows)) = Csv h (rows @ [r'])"
      by (simp add: write_row_def file_exists_def)
    with r' assms(1) have "after_call e sd (Csv h rows) = Csv h (rows @ [r'])
                            \<or> after_call e sd (Csv h rows) = Undecodable"
      by (simp add: after_call_def Let_def)
    with ac show ?thesis by auto
  qed
  from rr k hh have rr': "list_all (record_readable h) (rows @ [r])" by simp
  from Cons.IH[OF rest _ rr'] obtain new where
    n: "update_loop e ds (Csv h (rows @ [r])) = (Csv h ((rows @ [r]) @ new), None)"
       "map segment_id new = map (\<lambda>d. py_int (d_id d)) ds" by auto
  from cd ac k hh n s i(2)
  have "update_loop e (d # ds) (Csv h rows) = (Csv h (rows @ (r # new)), None)
          \<and> map segment_id (r # new) = map (\<lambda>d. py_int (d_id d)) (d # ds)" by simp
  then show ?case by blast
qed

lemma update_loop_chartable:
  assumes "\<not> write_fails e" "list_all snapshot_ok ds" "ds \<noteq> []" "chartable f"
  shows "\<exists>h new. update_loop e ds f = (Csv h (kept_rows f @ new), None)
           \<and> map segment_id new = map (\<lambda>d. py_int (d_id d)) ds
           \<and> ''date'' \<in> set h \<and> ''segment_id'' \<in> set h \<and> ''daily_attempts'' \<in> set h"
proof -
  from assms(3) obtain d ds' where ds: "ds = d # ds'" by (cases ds) auto
  with assms(2) have ok: "snapshot_ok d" and rest: "list_all snapshot_ok ds'" by simp_all
  from snapshot_ok_call[OF ok, of e f] obtain i sd where
    i: "py_int (sd_id sd) = Some i" "py_int (d_id d) = Some i" "in_int64 i"
    and cd: "call_dict e d f = Inr (after_call e sd f)" by blast
  from after_call_chartable[OF assms(4,1) i(1,3)] obtain h r where
    ac: "after_call e sd f = Csv h (kept_rows f @ [r])"
    and s: "segment_id r = Some i"
    and c: "''date'' \<in> set h" "''segment_id'' \<in> set h" "''daily_attempts'' \<in> set h"
    and rr: "list_all (record_readable h) (kept_rows f @ [r])" by blast
  have "kept_rows f @ [r] \<noteq> []" by simp
  from update_loop_appends[OF assms(1) rest c this rr] obtain new where
    n: "update_loop e ds' (Csv h (kept_rows f @ [r])) = (Csv h ((kept_rows f @ [r]) @ new), None)"
       "map segment_id new = map (\<lambda>d. py_int (d_id d)) ds'" by blast
  from ds cd ac n s i(2)
  have "update_loop e ds f = (Csv h (kept_rows f @ (r # new)), None)
          \<and> map segment_id (r # new) = map (\<lambda>d. py_int (d_id d)) ds" by simp
  with c show ?thesis by blast
qed

text \<open>
  A name that is \<^verbatim>\<open>null\<close> ends the run at line 269 of the first call: exit status 1,
  nothing written, no chart and no summary.
\<close>

lemma null_name_ends_the_run:
  "main \<lparr>today = 738887, write_fails = False\<rparr>
     (Started [(''1'', Json (Some JNull) (Some (JInt 10)) (Some (JInt 2))),
               (''3'', Json (Some (JStr ''Col'')) (Some (JInt 5)) (Some (JInt 1)))]) Absent
   = \<lparr>exit_status = 1, log_final = Absent, charts = [], summary = None\<rparr>"
  by (simp add: main_def get_segment_data_def call_dict_def snapshot_of_def int_or_zero_def
        py_int_simps)

text \<open>
  C8. Take a run that starts (configuration and token are there) in which at least
  one request is answered with a dictionary. Let every answered dictionary be
  \<open>snapshot_ok\<close>, the writes succeed and the log be \<open>chartable\<close>. Then the exit status
  is 0, the summary holds the number of answered requests and the number of the others,
  the log ends with one new record for each answered request, in their order and with
  their ids, and none for a failed one, and one chart is saved for each answered
  request.
\<close>

theorem partial_failure:
  assumes "\<not> write_fails e"
      and "chartable f"
      and "list_all snapshot_ok (fetched reqs)"
      and "fetched reqs \<noteq> []"
  shows "exit_status (main e (Started reqs) f) = 0
       \<and> summary (main e (Started reqs) f)
           = Some (length (fetched reqs), length reqs - length (fetched reqs))
       \<and> (\<exists>new. log_rows (log_final (main e (Started reqs) f)) = kept_rows f @ new
              \<and> map segment_id new = map (\<lambda>d. py_int (d_id d)) (fetched reqs))
       \<and> map fst (charts (main e (Started reqs) f)) = map d_id (fetched reqs)
       \<and> list_all (\<lambda>c. \<exists>s. snd c = Saved s) (charts (main e (Started reqs) f))"
proof -
  let ?ds = "fetched reqs"
  have fl: "fetch_loop reqs ([], 0, 0) = (?ds, length ?ds, length reqs - length ?ds)"
    by (simp add: fetch_loop_fetched)
  from update_loop_chartable[OF assms(1,3,4,2)] obtain h new where
    ul: "update_loop e ?ds f = (Csv h (kept_rows f @ new), None)"
    and ids: "map segment_id new = map (\<lambda>d. py_int (d_id d)) ?ds"
    and c: "''date'' \<in> set h" "''segment_id'' \<in> set h" "''daily_attempts'' \<in> set h" by blast
  let ?f' = "Csv h (kept_rows f @ new)"
  have m: "main e (Started reqs) f =
             \<lparr>exit_status = 0, log_final = ?f',
              charts = map (\<lambda>d. (d_id d, generate_plot (d_id d) (name_text (d_name d)) ?f')) ?ds,
              summary = Some (length ?ds, length reqs - length ?ds)\<rparr>"
    using assms(4) by (simp add: main_def fl ul)
  have saved: "\<exists>s. generate_plot (d_id d) (name_text (d_name d)) ?f' = Saved s"
    if d: "d \<in> set ?ds" for d
  proof -
    from d assms(3) have "snapshot_ok d" by (simp add: list_all_iff)
    then obtain i where i: "py_int (d_id d) = Some i"
      by (auto simp: snapshot_ok_def split: option.splits)
    from d have "py_int (d_id d) \<in> set (map (\<lambda>d. py_int (d_id d)) ?ds)" by simp
    with ids i have "Some i \<in> set (map segment_id new)" by simp
    then obtain r0 where r0: "r0 \<in> set new" "segment_id r0 = Some i" by auto
    then have "r0 \<in> set (kept_rows f @ new)" by simp
    from generate_plot_saved[OF c i this r0(2)] show ?thesis by simp
  qed
  have 1: "\<exists>new. log_rows (log_final (main e (Started reqs) f)) = kept_rows f @ new
              \<and> map segment_id new = map (\<lambda>d. py_int (d_id d)) ?ds"
    using m ids by auto
  have 2: "map fst (charts (main e (Started reqs) f)) = map d_id ?ds"
    using m by (simp add: comp_def)
  have 3: "list_all (\<lambda>c. \<exists>s. snd c = Saved s) (charts (main e (Started reqs) f))"
    using m saved by (simp add: list_all_iff)
  from m 1 2 3 show ?thesis by simp
qed

theorem partial_failure_witness:
  "fetched [(''1'', Json (Some (JStr ''Alp'')) (Some (JInt 10)) (Some (JInt 2))),
            (''2'', RequestException),
            (''3'', Json None None (Some JNull))]
     = [\<lparr>d_id = ''1'', d_name = JStr ''Alp'', d_effort_count = JInt 10, d_athlete_count = JInt 2\<rparr>,
        \<lparr>d_id = ''3'', d_name = JStr ''Unknown Segment 3'', d_effort_count = JInt 0,
         d_athlete_count = JNull\<rparr>]
   \<and> exit_status (main \<lparr>today = 738887, write_fails = False\<rparr>
        (Started [(''1'', Json (Some (JStr ''Alp'')) (Some (JInt 10)) (Some (JInt 2))),
                  (''2'', RequestException),
                  (''3'', Json None None (Some JNull))]) Absent) = 0
   \<and> summary (main \<lparr>today = 738887, write_fails = False\<rparr>
        (Started [(''1'', Json (Some (JStr ''Alp'')) (Some (JInt 10)) (Some (JInt 2))),
                  (''2'', RequestException),
                  (''3'', Json None None (Some JNull))]) Absent) = Some (2, 1)
   \<and> log_rows (log_final (main \<lparr>today = 738887, write_fails = False\<rparr>
        (Started [(''1'', Json (Some (JStr ''Alp'')) (Some (JInt 10)) (Some (JInt 2))),
                  (''2'', RequestException),
                  (''3'', Json None None (Some JNull))]) Absent))
       = [\<lparr>segment_id = Some 1, segment_name = ''Alp'', date = 738887,
           total_attempts_on_date = Num 10, daily_attempts = 0, athlete_count = 2\<rparr>,
          \<lparr>segment_id = Some 3, segment_name = ''Unknown Segment 3'', date = 738887,
           total_attempts_on_date = Num 0, daily_attempts = 0, athlete_count = 0\<rparr>]
   \<and> charts (main \<lparr>today = 738887, write_fails = False\<rparr>
        (Started [(''1'', Json (Some (JStr ''Alp'')) (Some (JInt 10)) (Some (JInt 2))),
                  (''2'', RequestException),
                  (''3'', Json None None (Some JNull))]) Absent)
       = [(''1'', Saved [(738886, 0), (738887, 0)]), (''3'', Saved [(738886, 0), (738887, 0)])]"
proof -
  let ?reqs = "[(''1'', Json (Some (JStr ''Alp'')) (Some (JInt 10)) (Some (JInt 2))),
                  (''2'', RequestException),
                  (''3'', Json None None (Some JNull))]"
  let ?e = "\<lparr>today = 738887, write_fails = False\<rparr>"
  have f: "fetched ?reqs
     = [\<lparr>d_id = ''1'', d_name = JStr ''Alp'', d_effort_count = JInt 10, d_athlete_count = JInt 2\<rparr>,
        \<lparr>d_id = ''3'', d_name = JStr ''Unknown Segment 3'', d_effort_count = JInt 0,
         d_athlete_count = JNull\<rparr>]"
    by (simp add: get_segment_data_def)
  have h1: "\<not> write_fails ?e" by simp
  have h2: "chartable Absent" by simp
  have h3: "list_all snapshot_ok (fetched ?reqs)"
    unfolding f by (simp add: snapshot_ok_def snapshot_of_def int_or_zero_def py_int_simps
        in_int64_def)
  have h4: "fetched ?reqs \<noteq> []" unfolding f by simp
  have v: "main ?e (Started ?reqs) Absent
     = \<lparr>exit_status = 0,
        log_final = Csv header
         [\<lparr>segment_id = Some 1, segment_name = ''Alp'', date = 738887,
           total_attempts_on_date = Num 10, daily_attempts = 0, athlete_count = 2\<rparr>,
          \<lparr>segment_id = Some 3, segment_name = ''Unknown Segment 3'', date = 738887,
           total_attempts_on_date = Num 0, daily_attempts = 0, athlete_count = 0\<rparr>],
        charts = [(''1'', Saved [(738886, 0), (738887, 0)]),
                  (''3'', Saved [(738886, 0), (738887, 0)])],
        summary = Some (2, 1)\<rparr>"
    by (simp add: main_def get_segment_data_def call_dict_def snapshot_of_def int_or_zero_def
        call_simps generate_plot_def name_text_def)
  from partial_failure[OF h1 h2 h3 h4] f v show ?thesis by simp
qed

end
